theory Spec2Isabelle
  imports Main "HOL-Library.Sublist"
begin

section \<open>Data model of the location service\<close>

text \<open>
  The location service (\<^verbatim>\<open>getLocation\<close>, \<^verbatim>\<open>getLocations\<close>, \<^verbatim>\<open>createLocation\<close>,
  \<^verbatim>\<open>deleteLocation\<close>, \<^verbatim>\<open>updateLocation\<close>, \<^verbatim>\<open>bulkDeleteLocations\<close>) works on three
  tables through the Prisma client. A table is the list of its rows; a Prisma column of type
  \<^verbatim>\<open>String?\<close> is a \<open>string option\<close> (\<open>None\<close> is \<^verbatim>\<open>null\<close>); time stamps and the numbers
  \<^verbatim>\<open>page\<close> and \<^verbatim>\<open>perPage\<close> are integers. A row has the columns the service reads or
  writes; the category and the tags that come with an included asset are left out.
\<close>

record location =
  loc_id :: string
  name :: string
  description :: "string option"
  address :: "string option"
  organizationId :: string
  userId :: string
  imageId :: "string option"
  updatedAt :: int

record image =
  image_id :: string
  image_updatedAt :: int

record asset =
  asset_id :: string
  title :: string
  locationId :: "string option"
  createdAt :: int

text \<open>
  The database: the three tables, and the lower-casing of its collation, which its
  case-insensitive comparison applies to every character. A \<open>char\<close> of a text column stands
  for one character of the text.
\<close>

record db =
  location_tbl :: "location list"
  image_tbl :: "image list"
  asset_tbl :: "asset list"
  collation_lower :: "char \<Rightarrow> char"

text \<open>
  The primary key of the location table: no two rows share an id. The constraint is declared in
  the Prisma schema; claims about deletion by id take it as the invariant of the table.
\<close>

definition location_ids_unique :: "db \<Rightarrow> bool" where
  "location_ids_unique d = distinct (map loc_id (location_tbl d))"

text \<open>
  The id of an image is generated when the row is created (\<^verbatim>\<open>db.image.create\<close> is called
  without an id) and is never the empty string; the column \<^verbatim>\<open>imageId\<close> of a location is
  only written by connecting a created image (\<^verbatim>\<open>image: { connect: { id: imageCreated.id } }\<close>
  in \<^verbatim>\<open>generateLocationWithImages\<close>). So no location holds the empty string as its
  \<^verbatim>\<open>imageId\<close>: the invariant of the table under which the claims about images are read.
\<close>

definition image_ids_generated :: "db \<Rightarrow> bool" where
  "image_ids_generated d = (\<forall>l \<in> set (location_tbl d). imageId l \<noteq> Some [])"

subsection \<open>Errors\<close>

text \<open>
  What Prisma raises, as far as the service depends on it: \<^verbatim>\<open>findFirstOrThrow\<close>,
  \<^verbatim>\<open>update\<close> and \<^verbatim>\<open>delete\<close> raise "record not found" when no row matches, \<^verbatim>\<open>create\<close> and
  \<^verbatim>\<open>update\<close> raise a unique-constraint violation naming the columns, and a negative
  \<^verbatim>\<open>skip\<close> is rejected when the query is validated.
\<close>

datatype prisma_error =
  RecordNotFound
  | UniqueConstraintFailed "string list"
  | ValidationError

datatype jsval = JStr string | JNum int | JArray "string list" | JUndefined

text \<open>
  A \<^verbatim>\<open>ShelfError\<close> is the object literal its constructor is called with; a property the call
  leaves out is \<open>None\<close>. The cause of an error is nothing (\<^verbatim>\<open>null\<close>), an error of Prisma, a
  failed \<^verbatim>\<open>invariant\<close>, or another \<^verbatim>\<open>ShelfError\<close>.
\<close>

datatype shelf_error =
  ShelfError (e_cause: cause) (e_title: "string option") (e_message: string)
    (e_additionalData: "(string \<times> jsval) list") (e_label: string) (e_status: "nat option")
    (e_shouldBeCaptured: "bool option")
and cause =
  NoCause
  | Prisma prisma_error
  | InvariantFailed string
  | Shelf shelf_error

definition label :: string where
  "label = ''Location''"

text \<open>JavaScript truthiness of a \<^verbatim>\<open>string | null | undefined\<close>: neither absent nor empty.\<close>

definition truthy :: "string option \<Rightarrow> bool" where
  "truthy s = (case s of None \<Rightarrow> False | Some t \<Rightarrow> t \<noteq> [])"

subsection \<open>Prisma queries\<close>

text \<open>
  The database is PostgreSQL, and \<^verbatim>\<open>LIKE\<close> is its pattern match, the pattern first: a
  percent sign stands for any run of characters, an underscore for any one character, and a
  backslash makes the character after it stand for itself; every other character stands for
  itself. PostgreSQL raises an error when it reaches a backslash that ends the pattern, where
  this match is false; the patterns of the service end with a percent sign and have no such
  backslash.
\<close>

fun like_match :: "string \<Rightarrow> string \<Rightarrow> bool" where
  "like_match [] t = (t = [])"
| "like_match (p # ps) [] = (p = CHR ''%'' \<and> like_match ps [])"
| "like_match (p # ps) (c # cs) =
     (if p = CHR ''%'' then like_match ps (c # cs) \<or> like_match (p # ps) cs
      else if p = CHR 0x5C then
        (case ps of [] \<Rightarrow> False | q # qs \<Rightarrow> c = q \<and> like_match qs cs)
      else (p = CHR ''_'' \<or> c = p) \<and> like_match ps cs)"

text \<open>
  \<^verbatim>\<open>ILIKE\<close>: the pattern and the text are both put in lower case by the collation, then
  matched.
\<close>

definition ilike :: "(char \<Rightarrow> char) \<Rightarrow> string \<Rightarrow> string \<Rightarrow> bool" where
  "ilike lw pattern txt = like_match (map lw pattern) (map lw txt)"

text \<open>
  Prisma's filter \<^verbatim>\<open>{ contains: search, mode: "insensitive" }\<close> on a column is the
  condition \<^verbatim>\<open>column ILIKE '%' || search || '%'\<close>: the search string goes into the pattern
  as it is, so a percent sign, an underscore or a backslash in it acts as in a pattern.
\<close>

definition contains_insensitive :: "(char \<Rightarrow> char) \<Rightarrow> string \<Rightarrow> string \<Rightarrow> bool" where
  "contains_insensitive lw needle hay = ilike lw (CHR ''%'' # needle @ [CHR ''%'']) hay"

text \<open>The characters with a meaning of their own in a pattern.\<close>

definition like_special :: "char \<Rightarrow> bool" where
  "like_special c = (c = CHR ''%'' \<or> c = CHR ''_'' \<or> c = CHR 0x5C)"

text \<open>
  \<^verbatim>\<open>skip\<close> and \<^verbatim>\<open>take\<close> of \<^verbatim>\<open>findMany\<close>. Prisma rejects a negative \<^verbatim>\<open>skip\<close> when it
  builds the query, whatever the table holds; \<^verbatim>\<open>take\<close> is at least 1 at both places where
  the service sets it.
\<close>

definition paginate :: "int \<Rightarrow> int \<Rightarrow> 'a list \<Rightarrow> prisma_error + 'a list" where
  "paginate skip tk xs =
     (if skip < 0 then Inl ValidationError
      else Inr (take (nat tk) (drop (nat skip) xs)))"

subsection \<open>Pagination arithmetic\<close>

text \<open>
  Both \<^verbatim>\<open>getLocation\<close> and \<^verbatim>\<open>getLocations\<close> start with
  \<^verbatim>\<open>const skip = page > 1 ? (page - 1) * perPage : 0;\<close> and
  \<^verbatim>\<open>const take = perPage >= 1 ? perPage : 8; // min 1 and max 25 per page\<close>.
\<close>

definition skip_of :: "int \<Rightarrow> int \<Rightarrow> int" where
  "skip_of page perPage = (if page > 1 then (page - 1) * perPage else 0)"

definition take_of :: "int \<Rightarrow> int" where
  "take_of perPage = (if perPage \<ge> 1 then perPage else 8)"

text \<open>A parameter with a default: \<^verbatim>\<open>page = 1\<close>, \<^verbatim>\<open>perPage = 8\<close>.\<close>

definition default_to :: "'a \<Rightarrow> 'a option \<Rightarrow> 'a" where
  "default_to d x = (case x of None \<Rightarrow> d | Some v \<Rightarrow> v)"

section \<open>getLocations\<close>

text \<open>A row of the result: the location with its included assets and its image's time stamp.\<close>

record location_row =
  row_location :: location
  row_assets :: "asset list"
  row_image :: "int option"

record locations_result =
  locations :: "location_row list"
  totalLocations :: nat

definition locations_where ::
  "(char \<Rightarrow> char) \<Rightarrow> string \<Rightarrow> string option \<Rightarrow> location \<Rightarrow> bool" where
  "locations_where lw org search l =
     (organizationId l = org \<and>
      (if truthy search then contains_insensitive lw (the search) (name l) else True))"

definition include_row :: "db \<Rightarrow> location \<Rightarrow> location_row" where
  "include_row d l =
     \<lparr> row_location = l,
       row_assets = filter (\<lambda>a. locationId a = Some (loc_id l)) (asset_tbl d),
       row_image =
         (case imageId l of
            None \<Rightarrow> None
          | Some i \<Rightarrow> map_option image_updatedAt (find (\<lambda>im. image_id im = i) (image_tbl d))) \<rparr>"

text \<open>\<^verbatim>\<open>orderBy: { updatedAt: "desc" }\<close>, rows with equal time stamps in table order.\<close>

definition order_updatedAt_desc :: "location list \<Rightarrow> location list" where
  "order_updatedAt_desc ls = sort_key (\<lambda>l. - updatedAt l) ls"

definition params_data ::
  "string \<Rightarrow> int option \<Rightarrow> int option \<Rightarrow> string option \<Rightarrow> (string \<times> jsval) list" where
  "params_data org page perPage search =
     [(''organizationId'', JStr org)]
     @ (case page of None \<Rightarrow> [] | Some p \<Rightarrow> [(''page'', JNum p)])
     @ (case perPage of None \<Rightarrow> [] | Some p \<Rightarrow> [(''perPage'', JNum p)])
     @ (case search of None \<Rightarrow> [] | Some s \<Rightarrow> [(''search'', JStr s)])"

definition getLocations ::
  "db \<Rightarrow> string \<Rightarrow> int option \<Rightarrow> int option \<Rightarrow> string option
     \<Rightarrow> shelf_error + locations_result" where
  "getLocations d org page_opt perPage_opt search =
     (let page = default_to 1 page_opt;
          perPage = default_to 8 perPage_opt;
          skip = skip_of page perPage;
          tk = take_of perPage;
          matching = filter (locations_where (collation_lower d) org search) (location_tbl d)
      in case paginate skip tk (order_updatedAt_desc matching) of
           Inl e \<Rightarrow>
             Inl (ShelfError (Prisma e) None
                    ''Something went wrong while fetching the locations''
                    (params_data org page_opt perPage_opt search) label None None)
         | Inr ls \<Rightarrow>
             Inr \<lparr> locations = map (include_row d) ls, totalLocations = length matching \<rparr>)"

section \<open>getLocation\<close>

text \<open>
  The parameters of \<^verbatim>\<open>getLocation\<close>. An entry of \<^verbatim>\<open>userOrganizations\<close> is its
  \<^verbatim>\<open>organizationId\<close>; \<^verbatim>\<open>request\<close> is an opaque value that only
  \<^verbatim>\<open>getRedirectUrlFromRequest\<close> reads; a caller's own \<^verbatim>\<open>include\<close> is the function that
  loads the \<^verbatim>\<open>assets\<close> relation its \<^verbatim>\<open>Prisma.LocationInclude\<close> asks for (\<open>None\<close> when it
  asks for none); it replaces the default include, and with it \<^verbatim>\<open>skip\<close>, \<^verbatim>\<open>take\<close> and the
  search.
\<close>

datatype sort_order = Asc | Desc

record 'req getLocation_params =
  p_id :: string
  p_organizationId :: string
  p_page :: "int option"
  p_perPage :: "int option"
  p_search :: "string option"
  p_orderBy :: "string option"
  p_orderDirection :: "sort_order option"
  p_userOrganizations :: "string list option"
  p_request :: "'req option"
  p_include :: "(db \<Rightarrow> location \<Rightarrow> asset list option) option"

record location_result =
  location :: location
  assets :: "asset list option"
  totalAssetsWithinLocation :: nat

text \<open>\<^verbatim>\<open>userOrganizations?.length\<close> as a condition: the list is given and not empty.\<close>

definition has_length :: "'a list option \<Rightarrow> bool" where
  "has_length xs = (case xs of None \<Rightarrow> False | Some ys \<Rightarrow> ys \<noteq> [])"

definition location_where :: "string \<Rightarrow> string \<Rightarrow> string list option \<Rightarrow> location \<Rightarrow> bool" where
  "location_where i org userOrganizations l =
     ((loc_id l = i \<and> organizationId l = org) \<or>
      (has_length userOrganizations \<and> loc_id l = i \<and>
       organizationId l \<in> set (the userOrganizations)))"

definition findFirstOrThrow :: "('a \<Rightarrow> bool) \<Rightarrow> 'a list \<Rightarrow> prisma_error + 'a" where
  "findFirstOrThrow P xs = (case find P xs of None \<Rightarrow> Inl RecordNotFound | Some x \<Rightarrow> Inr x)"

definition assets_where :: "(char \<Rightarrow> char) \<Rightarrow> string option \<Rightarrow> asset \<Rightarrow> bool" where
  "assets_where lw search a =
     (if truthy search then contains_insensitive lw (the search) (title a) else True)"

text \<open>
  The default include: the \<^verbatim>\<open>assets\<close> relation of the location, filtered by
  \<^verbatim>\<open>assetsWhere\<close>, ordered on the column \<^verbatim>\<open>orderBy\<close> in the direction
  \<^verbatim>\<open>orderDirection\<close>, then cut by \<^verbatim>\<open>skip\<close> and \<^verbatim>\<open>take\<close>. The column is chosen at run
  time and the ordering is the database's: the parameter \<open>order_by\<close> gives, for a column and
  a direction, the ordering, or nothing when Prisma rejects them. Prisma rejects a query, for a
  negative \<^verbatim>\<open>skip\<close> too, when it builds it, before it looks for the location.
\<close>

definition default_include ::
  "(string \<Rightarrow> sort_order option \<Rightarrow> (asset list \<Rightarrow> asset list) option)
     \<Rightarrow> int \<Rightarrow> int \<Rightarrow> string option \<Rightarrow> string \<Rightarrow> sort_order option
     \<Rightarrow> prisma_error + (db \<Rightarrow> location \<Rightarrow> asset list option)" where
  "default_include order_by skip tk search orderBy orderDirection =
     (if skip < 0 then Inl ValidationError
      else case order_by orderBy orderDirection of
             None \<Rightarrow> Inl ValidationError
           | Some ord \<Rightarrow>
               Inr (\<lambda>d l. Some (take (nat tk) (drop (nat skip)
                      (ord (filter (assets_where (collation_lower d) search)
                         (filter (\<lambda>a. locationId a = Some (loc_id l)) (asset_tbl d))))))))"

text \<open>
  \<^verbatim>\<open>isLikeShelfError\<close> and \<^verbatim>\<open>isNotFoundError\<close> are imported from \<^verbatim>\<open>~/utils/error\<close>; they
  are read as their names say. A cause that is like a \<^verbatim>\<open>ShelfError\<close> is a cause \<open>Shelf e\<close>;
  a not-found error is Prisma's "record not found".
\<close>

definition isNotFoundError :: "cause \<Rightarrow> bool" where
  "isNotFoundError c = (c = Prisma RecordNotFound)"

text \<open>The body of the \<^verbatim>\<open>try\<close> block: what it returns, or what it throws.\<close>

definition getLocation_try ::
  "(string \<Rightarrow> sort_order option \<Rightarrow> (asset list \<Rightarrow> asset list) option)
     \<Rightarrow> ('req \<Rightarrow> string) \<Rightarrow> db \<Rightarrow> 'req getLocation_params \<Rightarrow> cause + location_result" where
  "getLocation_try order_by getRedirectUrlFromRequest d p =
     (let organizationId' = p_organizationId p;
          page = default_to 1 (p_page p);
          perPage = default_to 8 (p_perPage p);
          orderBy = default_to ''createdAt'' (p_orderBy p);
          userOrganizations = p_userOrganizations p;
          otherOrganizationIds = userOrganizations;
          skip = skip_of page perPage;
          tk = take_of perPage
      in case (case p_include p of
                 Some inc \<Rightarrow> Inr inc
               | None \<Rightarrow>
                   default_include order_by skip tk (p_search p) orderBy (p_orderDirection p)) of
           Inl e \<Rightarrow> Inl (Prisma e)
         | Inr inc \<Rightarrow>
             (case findFirstOrThrow (location_where (p_id p) organizationId' userOrganizations)
                     (location_tbl d) of
                Inl e \<Rightarrow> Inl (Prisma e)
              | Inr l \<Rightarrow>
                  if has_length userOrganizations \<and> organizationId l \<noteq> organizationId' \<and>
                     organizationId l \<in> set (the otherOrganizationIds)
                  then
                    Inl (Shelf (ShelfError NoCause (Some ''Location not found.'') []
                      [(''model'', JStr ''location''),
                       (''organization'',
                          (case find (\<lambda>org. org = organizationId l) (the userOrganizations) of
                             None \<Rightarrow> JUndefined | Some org \<Rightarrow> JStr org)),
                       (''redirectTo'',
                          (case p_request p of
                             None \<Rightarrow> JUndefined
                           | Some r \<Rightarrow> JStr (getRedirectUrlFromRequest r)))]
                      label (Some 404) (Some False)))
                  else
                    Inr \<lparr> location = l, assets = inc d l,
                          totalAssetsWithinLocation =
                            length (filter (\<lambda>a. locationId a = Some (p_id p)) (asset_tbl d)) \<rparr>))"

definition getLocation_message :: string where
  "getLocation_message =
     ''The location you are trying to access does not exist or you do not have permission to access it.''"

text \<open>The \<^verbatim>\<open>catch\<close> block: every cause is wrapped into a new \<^verbatim>\<open>ShelfError\<close>.\<close>

definition getLocation_catch :: "string \<Rightarrow> string \<Rightarrow> cause \<Rightarrow> shelf_error" where
  "getLocation_catch i org c =
     ShelfError c (Some ''Location not found'') getLocation_message
       ([(''id'', JStr i), (''organizationId'', JStr org)]
        @ (case c of Shelf e \<Rightarrow> e_additionalData e | _ \<Rightarrow> []))
       label None
       (case c of Shelf e \<Rightarrow> e_shouldBeCaptured e | _ \<Rightarrow> Some (\<not> isNotFoundError c))"

definition getLocation ::
  "(string \<Rightarrow> sort_order option \<Rightarrow> (asset list \<Rightarrow> asset list) option)
     \<Rightarrow> ('req \<Rightarrow> string) \<Rightarrow> db \<Rightarrow> 'req getLocation_params \<Rightarrow> shelf_error + location_result" where
  "getLocation order_by getRedirectUrlFromRequest d p =
     (case getLocation_try order_by getRedirectUrlFromRequest d p of
        Inl c \<Rightarrow> Inl (getLocation_catch (p_id p) (p_organizationId p) c)
      | Inr r \<Rightarrow> Inr r)"

section \<open>Writing operations of the Prisma client\<close>

text \<open>
  A writing operation takes the database and returns the new one. \<^verbatim>\<open>create\<close> fills in the
  columns the schema gives a default: the id the database generates (\<open>newId\<close>) and the time
  stamp (\<open>now\<close>); \<^verbatim>\<open>update\<close> sets the time stamp. The referential actions of the schema on
  the rows that point to a deleted row are not part of the sources: the other tables are left
  as they are.
\<close>

text \<open>
  Modelled from the spec: the unique constraint of the location table, declared in the Prisma
  schema, which is not among the sources. The spec's data model says of a Location:
  "Invariant: name unique per organization".
\<close>

definition name_taken :: "db \<Rightarrow> string \<Rightarrow> string \<Rightarrow> bool" where
  "name_taken d n org = (\<exists>l \<in> set (location_tbl d). name l = n \<and> organizationId l = org)"

definition location_create ::
  "db \<Rightarrow> string \<Rightarrow> int \<Rightarrow> string \<Rightarrow> string option \<Rightarrow> string option \<Rightarrow> string \<Rightarrow> string
     \<Rightarrow> prisma_error + (location \<times> db)" where
  "location_create d newId now n desc addr uid org =
     (if newId \<in> set (map loc_id (location_tbl d)) then Inl (UniqueConstraintFailed [''id''])
      else if name_taken d n org
      then Inl (UniqueConstraintFailed [''name'', ''organizationId''])
      else
        (let l = \<lparr> loc_id = newId, name = n, description = desc, address = addr,
                    organizationId = org, userId = uid, imageId = None, updatedAt = now \<rparr>
         in Inr (l, d\<lparr>location_tbl := location_tbl d @ [l]\<rparr>)))"

text \<open>
  \<^verbatim>\<open>update\<close> with \<^verbatim>\<open>where: { id, organizationId }\<close>. A property of \<^verbatim>\<open>data\<close> that is
  \<^verbatim>\<open>undefined\<close> (\<open>None\<close>) leaves the column as it is; for the nullable columns
  \<open>Some None\<close> is \<^verbatim>\<open>null\<close>. The unique constraint is checked against the other rows.
\<close>

definition apply_update ::
  "int \<Rightarrow> string option \<Rightarrow> string option option \<Rightarrow> string option option \<Rightarrow> location
     \<Rightarrow> location" where
  "apply_update now n desc addr l =
     l\<lparr> name := default_to (name l) n,
        description := default_to (description l) desc,
        address := default_to (address l) addr,
        updatedAt := now \<rparr>"

definition location_update ::
  "db \<Rightarrow> int \<Rightarrow> string \<Rightarrow> string \<Rightarrow> string option \<Rightarrow> string option option
     \<Rightarrow> string option option \<Rightarrow> prisma_error + (location \<times> db)" where
  "location_update d now i org n desc addr =
     (case find (\<lambda>l. loc_id l = i \<and> organizationId l = org) (location_tbl d) of
        None \<Rightarrow> Inl RecordNotFound
      | Some l \<Rightarrow>
          if (case n of
                None \<Rightarrow> False
              | Some n' \<Rightarrow>
                  (\<exists>l' \<in> set (location_tbl d).
                     loc_id l' \<noteq> i \<and> name l' = n' \<and> organizationId l' = org))
          then Inl (UniqueConstraintFailed [''name'', ''organizationId''])
          else
            Inr (apply_update now n desc addr l,
                 d\<lparr>location_tbl :=
                     map (\<lambda>l'. if loc_id l' = i \<and> organizationId l' = org
                                then apply_update now n desc addr l' else l')
                       (location_tbl d)\<rparr>))"

text \<open>\<^verbatim>\<open>delete\<close> with \<^verbatim>\<open>where: { id, organizationId }\<close> returns the deleted row.\<close>

definition location_delete :: "db \<Rightarrow> string \<Rightarrow> string \<Rightarrow> prisma_error + (location \<times> db)" where
  "location_delete d i org =
     (case find (\<lambda>l. loc_id l = i \<and> organizationId l = org) (location_tbl d) of
        None \<Rightarrow> Inl RecordNotFound
      | Some l \<Rightarrow>
          Inr (l, d\<lparr>location_tbl :=
                      filter (\<lambda>l'. \<not> (loc_id l' = i \<and> organizationId l' = org))
                        (location_tbl d)\<rparr>))"

definition image_delete :: "db \<Rightarrow> string \<Rightarrow> prisma_error + db" where
  "image_delete d i =
     (if i \<in> set (map image_id (image_tbl d))
      then Inr (d\<lparr>image_tbl := filter (\<lambda>im. image_id im \<noteq> i) (image_tbl d)\<rparr>)
      else Inl RecordNotFound)"

text \<open>\<^verbatim>\<open>deleteMany\<close> with \<^verbatim>\<open>where: { id: { in: ids } }\<close> deletes what matches and never fails.\<close>

definition location_deleteMany :: "string list \<Rightarrow> db \<Rightarrow> db" where
  "location_deleteMany ids d =
     d\<lparr>location_tbl := filter (\<lambda>l. loc_id l \<notin> set ids) (location_tbl d)\<rparr>"

definition image_deleteMany :: "string list \<Rightarrow> db \<Rightarrow> db" where
  "image_deleteMany ids d =
     d\<lparr>image_tbl := filter (\<lambda>im. image_id im \<notin> set ids) (image_tbl d)\<rparr>"

text \<open>
  \<^verbatim>\<open>db.$transaction\<close>: when the callback throws, nothing it wrote is kept.
\<close>

definition transaction :: "(db \<Rightarrow> (cause + 'a) \<times> db) \<Rightarrow> db \<Rightarrow> (cause + 'a) \<times> db" where
  "transaction f d = (case f d of (Inl e, _) \<Rightarrow> (Inl e, d) | (Inr r, d') \<Rightarrow> (Inr r, d'))"

text \<open>\<^verbatim>\<open>invariant(value, message)\<close> of tiny-invariant throws when the value is falsy.\<close>

definition invariant :: "string option \<Rightarrow> string \<Rightarrow> cause + string" where
  "invariant v msg = (if truthy v then Inr (the v) else Inl (InvariantFailed msg))"

text \<open>\<^verbatim>\<open>xs.map(f)\<close> with a callback that may throw: the first throw ends the map.\<close>

fun map_throwing :: "('a \<Rightarrow> cause + 'b) \<Rightarrow> 'a list \<Rightarrow> cause + 'b list" where
  "map_throwing f [] = Inr []"
| "map_throwing f (x # xs) =
     (case f x of
        Inl e \<Rightarrow> Inl e
      | Inr y \<Rightarrow> (case map_throwing f xs of Inl e \<Rightarrow> Inl e | Inr ys \<Rightarrow> Inr (y # ys)))"

section \<open>createLocation, updateLocation\<close>

text \<open>
  Modelled from the spec: the message of \<^verbatim>\<open>maybeUniqueConstraintViolation\<close> for a
  unique-constraint violation. The module \<^verbatim>\<open>~/utils/error\<close> is not among the sources; the
  spec calls the message a user-facing "duplicate name" style message and does not give its
  text, for which this one stands.
\<close>

definition duplicate_name_message :: "string \<Rightarrow> string" where
  "duplicate_name_message modelName = ''duplicate name: '' @ modelName"

text \<open>
  Modelled from the spec: the message of \<^verbatim>\<open>maybeUniqueConstraintViolation\<close> for any other
  cause, of which the spec says nothing; this text stands for it.
\<close>

definition generic_failure_message :: "string \<Rightarrow> string" where
  "generic_failure_message modelName = ''Error creating or updating '' @ modelName"

text \<open>
  Modelled from the spec: the test of \<^verbatim>\<open>maybeUniqueConstraintViolation\<close> for a
  "unique-constraint violation", which the database raises.
\<close>

definition isUniqueViolation :: "cause \<Rightarrow> bool" where
  "isUniqueViolation c = (case c of Prisma (UniqueConstraintFailed _) \<Rightarrow> True | _ \<Rightarrow> False)"

text \<open>
  Modelled from the spec: \<^verbatim>\<open>maybeUniqueConstraintViolation(cause, modelName, options)\<close>,
  imported from \<^verbatim>\<open>~/utils/error\<close>, which is not among the sources. The spec:
  "Unique-constraint violations on create/update are translated to a user-facing "duplicate
  name" style message rather than a raw database error." It returns the error to throw, which
  wraps the cause and carries the additional data of the call; the label is the model's name.
\<close>

definition maybeUniqueConstraintViolation ::
  "cause \<Rightarrow> string \<Rightarrow> (string \<times> jsval) list \<Rightarrow> shelf_error" where
  "maybeUniqueConstraintViolation c modelName data =
     ShelfError c None
       (if isUniqueViolation c then duplicate_name_message modelName
        else generic_failure_message modelName)
       data modelName None None"

definition createLocation ::
  "db \<Rightarrow> string \<Rightarrow> int \<Rightarrow> string \<Rightarrow> string option \<Rightarrow> string option \<Rightarrow> string \<Rightarrow> string
     \<Rightarrow> (shelf_error + location) \<times> db" where
  "createLocation d newId now n desc addr uid org =
     (case location_create d newId now n desc addr uid org of
        Inr (l, d') \<Rightarrow> (Inr l, d')
      | Inl e \<Rightarrow>
          (Inl (maybeUniqueConstraintViolation (Prisma e) ''Location''
                  [(''userId'', JStr uid), (''organizationId'', JStr org)]), d))"

definition updateLocation ::
  "db \<Rightarrow> int \<Rightarrow> string \<Rightarrow> string option \<Rightarrow> string option option \<Rightarrow> string option option
     \<Rightarrow> string \<Rightarrow> string \<Rightarrow> (shelf_error + location) \<times> db" where
  "updateLocation d now i n addr desc uid org =
     (case location_update d now i org n desc addr of
        Inr (l, d') \<Rightarrow> (Inr l, d')
      | Inl e \<Rightarrow>
          (Inl (maybeUniqueConstraintViolation (Prisma e) ''Location''
                  [(''id'', JStr i), (''userId'', JStr uid), (''organizationId'', JStr org)]), d))"

section \<open>deleteLocation, bulkDeleteLocations\<close>

text \<open>
  \<^verbatim>\<open>deleteLocation\<close> deletes the location, then its image when \<^verbatim>\<open>location.imageId\<close> is
  truthy. The two deletions are separate statements: when the second one throws, the first one
  stays done.
\<close>

definition deleteLocation :: "db \<Rightarrow> string \<Rightarrow> string \<Rightarrow> (shelf_error + location) \<times> db" where
  "deleteLocation d i org =
     (let err = (\<lambda>e. ShelfError (Prisma e) None
                        ''Something went wrong while deleting the location''
                        [(''id'', JStr i)] label None None)
      in case location_delete d i org of
           Inl e \<Rightarrow> (Inl (err e), d)
         | Inr (l, d1) \<Rightarrow>
             if truthy (imageId l)
             then (case image_delete d1 (the (imageId l)) of
                     Inl e \<Rightarrow> (Inl (err e), d1)
                   | Inr d2 \<Rightarrow> (Inr l, d2))
             else (Inr l, d1))"

text \<open>
  \<^verbatim>\<open>bulkDeleteLocations\<close>. \<^verbatim>\<open>ALL_SELECTED_KEY\<close> is imported from \<^verbatim>\<open>~/utils/list\<close>; its
  value is the first parameter. \<^verbatim>\<open>findMany\<close> selects the id and the imageId of the locations
  to delete; the two \<^verbatim>\<open>deleteMany\<close> run in one transaction.
\<close>

definition bulk_where :: "string \<Rightarrow> string list \<Rightarrow> string \<Rightarrow> location \<Rightarrow> bool" where
  "bulk_where ALL_SELECTED_KEY locationIds org l =
     (if ALL_SELECTED_KEY \<in> set locationIds then organizationId l = org
      else loc_id l \<in> set locationIds \<and> organizationId l = org)"

definition bulkDelete_tx :: "location list \<Rightarrow> db \<Rightarrow> (cause + unit) \<times> db" where
  "bulkDelete_tx locs d =
     (let d1 = location_deleteMany (map loc_id locs) d;
          locationWithImages = filter (\<lambda>l. truthy (imageId l)) locs
      in case map_throwing (\<lambda>l. invariant (imageId l) ''Image not found to delete'')
                locationWithImages of
           Inl e \<Rightarrow> (Inl e, d1)
         | Inr imageIds \<Rightarrow> (Inr (), image_deleteMany imageIds d1))"

definition bulkDeleteLocations ::
  "string \<Rightarrow> db \<Rightarrow> string list \<Rightarrow> string \<Rightarrow> (shelf_error + unit) \<times> db" where
  "bulkDeleteLocations ALL_SELECTED_KEY d locationIds org =
     (let locs = filter (bulk_where ALL_SELECTED_KEY locationIds org) (location_tbl d)
      in case transaction (bulkDelete_tx locs) d of
           (Inl c, d') \<Rightarrow>
             (Inl (ShelfError c None ''Something went wrong while bulk deleting locations.''
                     [(''locationIds'', JArray locationIds),
                      (''organizationId'', JStr org)]
                     label None None), d')
         | (Inr r, d') \<Rightarrow> (Inr r, d'))"

section \<open>The bulk location update modal\<close>

text \<open>
  Modelled from the spec: the state of the hook \<^verbatim>\<open>useBulkModal\<close> of
  \<^verbatim>\<open>./bulk-update-modal\<close>, which is not among the sources;
  \<^verbatim>\<open>useBulkLocationUpdateModal\<close> takes \<^verbatim>\<open>disabled\<close> and \<^verbatim>\<open>handleCloseDialog\<close> from it.
  The spec's Modal Lifecycle Controller has the state "{ isOpen: bool, isSubmitting: bool }".
\<close>

record BulkModalState =
  isOpen :: bool
  isSubmitting :: bool

text \<open>Modelled from the spec: "Operation open(): sets isOpen=true. No-op if already open."\<close>

definition "open" :: "BulkModalState \<Rightarrow> BulkModalState" where
  "open s = s\<lparr>isOpen := True\<rparr>"

text \<open>
  Modelled from the spec: "Operation close(): sets isOpen=false; fails silently (no-op) if a
  submission is in flight, to prevent abandoning a pending request".
\<close>

definition close :: "BulkModalState \<Rightarrow> BulkModalState" where
  "close s = (if isSubmitting s then s else s\<lparr>isOpen := False\<rparr>)"

text \<open>Modelled from the spec: "Operation onSubmitStart(): sets isSubmitting=true".\<close>

definition onSubmitStart :: "BulkModalState \<Rightarrow> BulkModalState" where
  "onSubmitStart s = s\<lparr>isSubmitting := True\<rparr>"

text \<open>
  Modelled from the spec: "Operation onSubmitEnd(): sets isSubmitting=false, isOpen=false".
\<close>

definition onSubmitEnd :: "BulkModalState \<Rightarrow> BulkModalState" where
  "onSubmitEnd s = s\<lparr>isSubmitting := False, isOpen := False\<rparr>"

text \<open>
  Modelled from the spec: \<^verbatim>\<open>disabled\<close>, which the hook returns: "disabled state is derived
  (isSubmitting) and propagated to all interactive children".
\<close>

definition disabled :: "BulkModalState \<Rightarrow> bool" where
  "disabled s = isSubmitting s"

text \<open>
  Modelled from the spec: \<^verbatim>\<open>handleCloseDialog\<close>, which the hook returns, is the
  controller's close().
\<close>

definition handleCloseDialog :: "BulkModalState \<Rightarrow> BulkModalState" where
  "handleCloseDialog s = close s"

text \<open>
  From the source, \<^verbatim>\<open>BulkLocationUpdateModalContent\<close>: the Cancel button carries
  \<^verbatim>\<open>disabled={disabled}\<close> and \<^verbatim>\<open>onClick={handleCloseDialog}\<close>; a disabled button fires no
  click.
\<close>

definition cancel_click :: "BulkModalState \<Rightarrow> BulkModalState" where
  "cancel_click s = (if disabled s then s else handleCloseDialog s)"

section \<open>Form data and the schemas\<close>

text \<open>
  An entry of a submitted form is a string or a file. A zod schema either returns the parsed
  value or the message of its first issue.
\<close>

datatype form_value = FString string | FFile

type_synonym form_data = "string \<rightharpoonup> form_value"

text \<open>
  \<^verbatim>\<open>NewNoteSchema = z.object({ content: z.string().min(3, "Content is required") })\<close>.
  The messages of a missing field and of a field that is no string are zod's own.
\<close>

definition NewNoteSchema :: "form_data \<Rightarrow> string + string" where
  "NewNoteSchema fd =
     (case fd ''content'' of
        None \<Rightarrow> Inl ''Required''
      | Some FFile \<Rightarrow> Inl ''Expected string, received object''
      | Some (FString s) \<Rightarrow> if length s < 3 then Inl ''Content is required'' else Inr s)"

section \<open>The new-note form\<close>

text \<open>
  The component \<^verbatim>\<open>NewNote\<close>: \<^verbatim>\<open>isEditing\<close> chooses between the plain input and the
  markdown editor, the field \<^verbatim>\<open>content\<close>; \<open>shown_error\<close> is the message of
  \<^verbatim>\<open>zo.errors.content()\<close>; \<open>submitted\<close> lists the field \<^verbatim>\<open>content\<close> of the forms
  sent to \<^verbatim>\<open>/items/:itemId/note\<close>, the latest first. An event carries the text of the editor when it
  fires. A submit event of the form is validated by \<^verbatim>\<open>useZorm\<close> against the schema, which
  stops an invalid form; \<^verbatim>\<open>handleKeyDown\<close> calls \<^verbatim>\<open>fetcher.submit\<close> with the form itself.
\<close>

record note_state =
  isEditing :: bool
  shown_error :: "string option"
  submitted :: "string list"

datatype note_event =
  InputFocus
  | CancelClick
  | Blur string "string option"
  | KeyUp string string bool bool
  | SubmitEvent string

text \<open>The data of the form: the editor is in the form only while editing.\<close>

definition form_of :: "note_state \<Rightarrow> string \<Rightarrow> form_data" where
  "form_of s content = (if isEditing s then [''content'' \<mapsto> FString content] else Map.empty)"

definition handelBlur :: "string \<Rightarrow> string option \<Rightarrow> note_state \<Rightarrow> note_state" where
  "handelBlur content relatedTagName s =
     (let clickedTargetILink = (relatedTagName = Some ''A'' \<or> relatedTagName = Some ''BUTTON'')
      in if clickedTargetILink then s
         else if content = [] then s\<lparr>isEditing := False\<rparr>
         else s)"

definition handleKeyDown :: "string \<Rightarrow> string \<Rightarrow> bool \<Rightarrow> bool \<Rightarrow> note_state \<Rightarrow> note_state" where
  "handleKeyDown content key metaKey ctrlKey s =
     (if content \<noteq> [] \<and> key = ''Enter'' \<and> (metaKey \<or> ctrlKey)
      then s\<lparr>submitted := content # submitted s\<rparr>
      else s)"

definition zorm_submit :: "string \<Rightarrow> note_state \<Rightarrow> note_state" where
  "zorm_submit content s =
     (case NewNoteSchema (form_of s content) of
        Inl msg \<Rightarrow> s\<lparr>shown_error := Some msg\<rparr>
      | Inr c \<Rightarrow> s\<lparr>shown_error := None, submitted := c # submitted s\<rparr>)"

fun note_step :: "note_event \<Rightarrow> note_state \<Rightarrow> note_state" where
  "note_step InputFocus s = (if isEditing s then s else s\<lparr>isEditing := True\<rparr>)"
| "note_step CancelClick s = (if isEditing s then s\<lparr>isEditing := False\<rparr> else s)"
| "note_step (Blur content tag) s = (if isEditing s then handelBlur content tag s else s)"
| "note_step (KeyUp content key metaKey ctrlKey) s =
     (if isEditing s then handleKeyDown content key metaKey ctrlKey s else s)"
| "note_step (SubmitEvent content) s = zorm_submit content s"

section \<open>The action of the asset page\<close>

text \<open>
  The helpers the action calls are imported from modules that are not among the sources; they
  are the fields of the environment, each a function that returns its result or what it throws
  (a value of the type \<open>'c\<close>): \<^verbatim>\<open>getParams\<close> and \<^verbatim>\<open>parseData\<close> throw \<open>params_invalid\<close> and
  \<open>data_invalid\<close> when the schema rejects their input; \<^verbatim>\<open>makeShelfError\<close> turns what was
  caught into the reason (of the type \<open>'r\<close>), whose \<^verbatim>\<open>status\<close> is \<open>status_of\<close>.
\<close>

datatype PermissionAction = PermissionDelete | PermissionUpdate

datatype intent = IntentDelete | IntentToggle

record ('c, 'r) env =
  params_invalid :: 'c
  data_invalid :: 'c
  requirePermission :: "string \<Rightarrow> PermissionAction \<Rightarrow> 'c + string"
  deleteAsset :: "string \<Rightarrow> string \<Rightarrow> 'c option"
  deleteAssetImage :: "string \<Rightarrow> string \<Rightarrow> 'c option"
  updateAssetBookingAvailability :: "string \<Rightarrow> bool \<Rightarrow> 'c option"
  makeShelfError :: "'c \<Rightarrow> (string \<times> jsval) list \<Rightarrow> 'r"
  status_of :: "'r \<Rightarrow> nat"

text \<open>What the action did to the outside, in order.\<close>

datatype effect =
  AssetDeleted string string
  | AssetImageDeleted string string
  | BookingAvailabilityUpdated string bool
  | NotificationSent string string

datatype 'r body = DataEnvelope | ErrorEnvelope 'r

datatype 'r response = Redirect string | Json "'r body" nat

datatype ('c, 'r) outcome = Returned "'r response" | Thrown 'c

text \<open>\<^verbatim>\<open>z.object({ intent: z.enum(["delete", "toggle"]) })\<close>\<close>

definition parse_intent :: "form_data \<Rightarrow> intent option" where
  "parse_intent fd =
     (case fd ''intent'' of
        Some (FString s) \<Rightarrow>
          (if s = ''delete'' then Some IntentDelete
           else if s = ''toggle'' then Some IntentToggle
           else None)
      | _ \<Rightarrow> None)"

text \<open>\<^verbatim>\<open>z.object({ mainImageUrl: z.string().optional() })\<close>\<close>

definition parse_mainImageUrl :: "form_data \<Rightarrow> string option option" where
  "parse_mainImageUrl fd =
     (case fd ''mainImageUrl'' of
        None \<Rightarrow> Some None
      | Some (FString s) \<Rightarrow> Some (Some s)
      | Some FFile \<Rightarrow> None)"

text \<open>
  \<^verbatim>\<open>AvailabilityForBookingFormSchema\<close>:
  \<^verbatim>\<open>z.string().transform((val) => val === "on").default("false")\<close>. A missing field takes the
  default, which the transformation then reads.
\<close>

definition AvailabilityForBookingFormSchema :: "form_data \<Rightarrow> bool option" where
  "AvailabilityForBookingFormSchema fd =
     (case fd ''availableToBook'' of
        None \<Rightarrow> Some (''false'' = ''on'')
      | Some (FString s) \<Rightarrow> Some (s = ''on'')
      | Some FFile \<Rightarrow> None)"

definition intent2ActionMap :: "intent \<Rightarrow> PermissionAction" where
  "intent2ActionMap i = (case i of IntentDelete \<Rightarrow> PermissionDelete | IntentToggle \<Rightarrow> PermissionUpdate)"

text \<open>The branch \<^verbatim>\<open>case "delete"\<close> of the switch.\<close>

definition handle_delete ::
  "('c, 'r) env \<Rightarrow> string \<Rightarrow> string \<Rightarrow> form_data \<Rightarrow> ('c + 'r response) \<times> effect list" where
  "handle_delete env organizationId' i fd =
     (case parse_mainImageUrl fd of
        None \<Rightarrow> (Inl (data_invalid env), [])
      | Some mainImageUrl \<Rightarrow>
          (case deleteAsset env organizationId' i of
             Some c \<Rightarrow> (Inl c, [])
           | None \<Rightarrow>
               if truthy mainImageUrl
               then (case deleteAssetImage env (the mainImageUrl) ''assets'' of
                       Some c \<Rightarrow> (Inl c, [AssetDeleted organizationId' i])
                     | None \<Rightarrow>
                         (Inr (Redirect ''/assets''),
                          [AssetDeleted organizationId' i,
                           AssetImageDeleted (the mainImageUrl) ''assets'',
                           NotificationSent ''Asset deleted''
                             ''Your asset has been deleted successfully'']))
               else (Inr (Redirect ''/assets''),
                     [AssetDeleted organizationId' i,
                      NotificationSent ''Asset deleted''
                        ''Your asset has been deleted successfully''])))"

text \<open>The branch \<^verbatim>\<open>case "toggle"\<close> of the switch.\<close>

definition handle_toggle ::
  "('c, 'r) env \<Rightarrow> string \<Rightarrow> form_data \<Rightarrow> ('c + 'r response) \<times> effect list" where
  "handle_toggle env i fd =
     (case AvailabilityForBookingFormSchema fd of
        None \<Rightarrow> (Inl (data_invalid env), [])
      | Some availableToBook \<Rightarrow>
          (case updateAssetBookingAvailability env i availableToBook of
             Some c \<Rightarrow> (Inl c, [])
           | None \<Rightarrow>
               (Inr (Json DataEnvelope 200),
                [BookingAvailabilityUpdated i availableToBook,
                 NotificationSent ''Asset availability status updated successfully''
                   ''Your asset's availability for booking has been updated''])))"

text \<open>The \<^verbatim>\<open>try\<close> block of the action.\<close>

definition action_try ::
  "('c, 'r) env \<Rightarrow> string \<Rightarrow> string \<Rightarrow> form_data \<Rightarrow> ('c + 'r response) \<times> effect list" where
  "action_try env userId' i fd =
     (case parse_intent fd of
        None \<Rightarrow> (Inl (data_invalid env), [])
      | Some intent \<Rightarrow>
          (case requirePermission env userId' (intent2ActionMap intent) of
             Inl c \<Rightarrow> (Inl c, [])
           | Inr organizationId' \<Rightarrow>
               (case intent of
                  IntentDelete \<Rightarrow> handle_delete env organizationId' i fd
                | IntentToggle \<Rightarrow> handle_toggle env i fd)))"

text \<open>
  The action: \<^verbatim>\<open>getParams\<close> runs before the \<^verbatim>\<open>try\<close>, so what it throws leaves the action;
  what the \<^verbatim>\<open>try\<close> block throws is caught and answered with
  \<^verbatim>\<open>json(error(reason), { status: reason.status })\<close>.
\<close>

definition action ::
  "('c, 'r) env \<Rightarrow> string \<Rightarrow> (string \<rightharpoonup> string) \<Rightarrow> form_data
     \<Rightarrow> ('c, 'r) outcome \<times> effect list" where
  "action env userId' params fd =
     (case params ''assetId'' of
        None \<Rightarrow> (Thrown (params_invalid env), [])
      | Some i \<Rightarrow>
          (case action_try env userId' i fd of
             (Inr resp, effs) \<Rightarrow> (Returned resp, effs)
           | (Inl c, effs) \<Rightarrow>
               (let reason = makeShelfError env c [(''userId'', JStr userId'), (''id'', JStr i)]
                in (Returned (Json (ErrorEnvelope reason) (status_of env reason)), effs))))"

section \<open>Sample data\<close>

text \<open>A small database for the concrete instances: two organizations, four locations.\<close>

definition sample_loc :: "string \<Rightarrow> string \<Rightarrow> string \<Rightarrow> string option \<Rightarrow> int \<Rightarrow> location" where
  "sample_loc i n org img t =
     \<lparr> loc_id = i, name = n, description = None, address = None, organizationId = org,
       userId = ''u1'', imageId = img, updatedAt = t \<rparr>"

definition sample_asset :: "string \<Rightarrow> string \<Rightarrow> string \<Rightarrow> int \<Rightarrow> asset" where
  "sample_asset i t l c = \<lparr> asset_id = i, title = t, locationId = Some l, createdAt = c \<rparr>"

text \<open>The lower-casing of the letters A to Z, the collation of the sample database.\<close>

definition ascii_lower :: "char \<Rightarrow> char" where
  "ascii_lower c =
     (let n = (of_char c :: nat) in if 65 \<le> n \<and> n \<le> 90 then char_of (n + 32) else c)"

definition sample_db :: db where
  "sample_db =
     \<lparr> location_tbl =
         [sample_loc ''l1'' ''Shelf A'' ''o1'' (Some ''i1'') 1,
          sample_loc ''l2'' ''shelf b'' ''o1'' None 2,
          sample_loc ''l3'' ''Attic'' ''o1'' (Some ''i3'') 3,
          sample_loc ''l4'' ''Shelf A'' ''o2'' (Some ''i4'') 4],
       image_tbl =
         [\<lparr> image_id = ''i1'', image_updatedAt = 1 \<rparr>,
          \<lparr> image_id = ''i3'', image_updatedAt = 3 \<rparr>,
          \<lparr> image_id = ''i4'', image_updatedAt = 4 \<rparr>],
       asset_tbl =
         [sample_asset ''a1'' ''Drill'' ''l1'' 1,
          sample_asset ''a2'' ''drill bits'' ''l1'' 2,
          sample_asset ''a3'' ''Saw'' ''l1'' 3,
          sample_asset ''a4'' ''Ladder'' ''l3'' 4],
       collation_lower = ascii_lower \<rparr>"

text \<open>An ordering of the database that keeps the rows as they are.\<close>

definition table_order :: "string \<Rightarrow> sort_order option \<Rightarrow> (asset list \<Rightarrow> asset list) option" where
  "table_order col dir = Some (\<lambda>as. as)"

definition sample_params :: "string \<Rightarrow> string \<Rightarrow> unit getLocation_params" where
  "sample_params i org =
     \<lparr> p_id = i, p_organizationId = org, p_page = None, p_perPage = None, p_search = None,
       p_orderBy = None, p_orderDirection = None, p_userOrganizations = None,
       p_request = None, p_include = None \<rparr>"

definition sample_redirect :: "unit \<Rightarrow> string" where
  "sample_redirect r = ''/locations''"

definition empty_db :: db where
  "empty_db =
     \<lparr> location_tbl = [], image_tbl = [], asset_tbl = [], collation_lower = ascii_lower \<rparr>"

text \<open>
  An environment for the action of the asset page: every user may do everything in the
  organization "o1", and no helper throws. What is thrown is a status code, which is also the
  reason.
\<close>

definition sample_env :: "(nat, nat) env" where
  "sample_env =
     \<lparr> params_invalid = 400, data_invalid = 400,
       requirePermission = (\<lambda>u a. Inr ''o1''),
       deleteAsset = (\<lambda>org i. None),
       deleteAssetImage = (\<lambda>url bucket. None),
       updateAssetBookingAvailability = (\<lambda>i b. None),
       makeShelfError = (\<lambda>c data. c),
       status_of = (\<lambda>r. r) \<rparr>"

text \<open>The same environment, where the user lacks the permission (what is thrown is 403).\<close>

definition sample_env_denied :: "(nat, nat) env" where
  "sample_env_denied = sample_env\<lparr>requirePermission := (\<lambda>u a. Inl 403)\<rparr>"

text \<open>The same environment, where deleting the asset fails (what is thrown is 500).\<close>

definition sample_env_failing :: "(nat, nat) env" where
  "sample_env_failing = sample_env\<lparr>deleteAsset := (\<lambda>org i. Some 500)\<rparr>"

section \<open>Helper lemmas\<close>

lemma take_of_pos: "0 < take_of perPage"
  by (simp add: take_of_def)

lemma getLocations_Inr:
  assumes "0 \<le> skip_of (default_to 1 page) (default_to 8 perPage)"
  shows "getLocations d org page perPage search =
     Inr \<lparr> locations = map (include_row d)
              (take (nat (take_of (default_to 8 perPage)))
                 (drop (nat (skip_of (default_to 1 page) (default_to 8 perPage)))
                    (order_updatedAt_desc (filter (locations_where (collation_lower d) org search) (location_tbl d))))),
           totalLocations = length (filter (locations_where (collation_lower d) org search) (location_tbl d)) \<rparr>"
  using assms take_of_pos [of "default_to 8 perPage"]
  by (simp add: getLocations_def Let_def paginate_def)

lemma getLocation_Inr_assets:
  assumes "getLocation order_by g d p = Inr r" and "p_include p = None"
  shows "\<exists>ord. order_by (default_to ''createdAt'' (p_orderBy p)) (p_orderDirection p) = Some ord
            \<and> 0 \<le> skip_of (default_to 1 (p_page p)) (default_to 8 (p_perPage p))
            \<and> assets r = Some (take (nat (take_of (default_to 8 (p_perPage p))))
                 (drop (nat (skip_of (default_to 1 (p_page p)) (default_to 8 (p_perPage p))))
                      (ord (filter (assets_where (collation_lower d) (p_search p))
                         (filter (\<lambda>a. locationId a = Some (loc_id (location r)))
                            (asset_tbl d))))))"
  using assms take_of_pos [of "default_to 8 (p_perPage p)"]
  by (auto simp: getLocation_def getLocation_try_def Let_def default_include_def
      split: sum.splits option.splits if_splits)

lemmas sample_defs = sample_db_def sample_loc_def sample_asset_def sample_params_def table_order_def

lemma sample_getLocation:
  "getLocation table_order sample_redirect sample_db
      ((sample_params ''l1'' ''o1'')\<lparr>p_page := Some 2, p_perPage := Some 2\<rparr>) =
    Inr \<lparr> location = sample_loc ''l1'' ''Shelf A'' ''o1'' (Some ''i1'') 1,
          assets = Some [sample_asset ''a3'' ''Saw'' ''l1'' 3],
          totalAssetsWithinLocation = 3 \<rparr>"
  by (simp add: getLocation_def getLocation_try_def findFirstOrThrow_def location_where_def
      has_length_def default_include_def assets_where_def truthy_def paginate_def skip_of_def
      take_of_def default_to_def sample_defs)

section \<open>Pagination\<close>

text \<open>
  Claim C5. In \<^verbatim>\<open>getLocations\<close> and in the asset listing of \<^verbatim>\<open>getLocation\<close>, the page size
  is the default 8 when \<^verbatim>\<open>perPage < 1\<close> and \<^verbatim>\<open>perPage\<close> otherwise; the number of records
  skipped is \<^verbatim>\<open>(page - 1) * perPage\<close> when \<^verbatim>\<open>page > 1\<close> and 0 otherwise; page 2 with
  \<^verbatim>\<open>perPage\<close> 8 skips 8 records. Both functions hand exactly these two numbers to the query:
  \<^verbatim>\<open>getLocations\<close> returns that page of the ordered matching locations, and a call of
  \<^verbatim>\<open>getLocation\<close> that returns (with the default include) carries that page of the ordered
  matching assets.
\<close>

theorem pagination_skip_and_take:
  "take_of perPage = (if perPage < 1 then 8 else perPage)
   \<and> skip_of page perPage = (if page > 1 then (page - 1) * perPage else 0)
   \<and> skip_of 2 8 = 8
   \<and> (0 \<le> skip_of (default_to 1 page_opt) (default_to 8 perPage_opt) \<longrightarrow>
        getLocations d org page_opt perPage_opt search =
          Inr \<lparr> locations = map (include_row d)
                   (take (nat (take_of (default_to 8 perPage_opt)))
                      (drop (nat (skip_of (default_to 1 page_opt) (default_to 8 perPage_opt)))
                         (order_updatedAt_desc
                            (filter (locations_where (collation_lower d) org search) (location_tbl d))))),
                totalLocations = length (filter (locations_where (collation_lower d) org search) (location_tbl d)) \<rparr>)
   \<and> (getLocation order_by g d p = Inr r \<and> p_include p = None \<longrightarrow>
        (\<exists>ord. order_by (default_to ''createdAt'' (p_orderBy p)) (p_orderDirection p) = Some ord
              \<and> assets r = Some (take (nat (take_of (default_to 8 (p_perPage p))))
                   (drop (nat (skip_of (default_to 1 (p_page p)) (default_to 8 (p_perPage p))))
                      (ord (filter (assets_where (collation_lower d) (p_search p))
                         (filter (\<lambda>a. locationId a = Some (loc_id (location r)))
                            (asset_tbl d))))))))"
proof (intro conjI impI)
  show "take_of perPage = (if perPage < 1 then 8 else perPage)"
    by (simp add: take_of_def)
  show "skip_of page perPage = (if page > 1 then (page - 1) * perPage else 0)"
    by (simp add: skip_of_def)
  show "skip_of 2 8 = 8"
    by (simp add: skip_of_def)
next
  assume "0 \<le> skip_of (default_to 1 page_opt) (default_to 8 perPage_opt)"
  then show "getLocations d org page_opt perPage_opt search =
          Inr \<lparr> locations = map (include_row d)
                   (take (nat (take_of (default_to 8 perPage_opt)))
                      (drop (nat (skip_of (default_to 1 page_opt) (default_to 8 perPage_opt)))
                         (order_updatedAt_desc
                            (filter (locations_where (collation_lower d) org search) (location_tbl d))))),
                totalLocations = length (filter (locations_where (collation_lower d) org search) (location_tbl d)) \<rparr>"
    by (rule getLocations_Inr)
next
  assume "getLocation order_by g d p = Inr r \<and> p_include p = None"
  then show "\<exists>ord. order_by (default_to ''createdAt'' (p_orderBy p)) (p_orderDirection p) = Some ord
              \<and> assets r = Some (take (nat (take_of (default_to 8 (p_perPage p))))
                   (drop (nat (skip_of (default_to 1 (p_page p)) (default_to 8 (p_perPage p))))
                      (ord (filter (assets_where (collation_lower d) (p_search p))
                         (filter (\<lambda>a. locationId a = Some (loc_id (location r)))
                            (asset_tbl d))))))"
    using getLocation_Inr_assets [of order_by g d p r] by blast
qed

theorem pagination_skip_and_take_witness:
  "0 \<le> skip_of (default_to 1 (Some 2)) (default_to 8 (Some 2))
   \<and> locations (projr (getLocations sample_db ''o1'' (Some 2) (Some 2) None)) =
       [include_row sample_db (sample_loc ''l1'' ''Shelf A'' ''o1'' (Some ''i1'') 1)]
   \<and> getLocation table_order sample_redirect sample_db
        ((sample_params ''l1'' ''o1'')\<lparr>p_page := Some 2, p_perPage := Some 2\<rparr>) =
       Inr \<lparr> location = sample_loc ''l1'' ''Shelf A'' ''o1'' (Some ''i1'') 1,
             assets = Some [sample_asset ''a3'' ''Saw'' ''l1'' 3],
             totalAssetsWithinLocation = 3 \<rparr>
   \<and> p_include ((sample_params ''l1'' ''o1'')\<lparr>p_page := Some 2, p_perPage := Some 2\<rparr>) = None"
proof -
  have h: "0 \<le> skip_of (default_to 1 (Some 2)) (default_to 8 (Some 2))"
    by (simp add: skip_of_def default_to_def)
  note t = pagination_skip_and_take [of 2 2 "Some 2" "Some 2" sample_db "''o1''" None
      table_order sample_redirect "(sample_params ''l1'' ''o1'')\<lparr>p_page := Some 2, p_perPage := Some 2\<rparr>"
      "\<lparr> location = sample_loc ''l1'' ''Shelf A'' ''o1'' (Some ''i1'') 1,
         assets = Some [sample_asset ''a3'' ''Saw'' ''l1'' 3],
         totalAssetsWithinLocation = 3 \<rparr>"]
  from t h have "getLocations sample_db ''o1'' (Some 2) (Some 2) None =
     Inr \<lparr> locations = map (include_row sample_db)
                   (take (nat (take_of (default_to 8 (Some 2))))
                      (drop (nat (skip_of (default_to 1 (Some 2)) (default_to 8 (Some 2))))
                         (order_updatedAt_desc
                            (filter (locations_where (collation_lower sample_db) ''o1'' None) (location_tbl sample_db))))),
                totalLocations = length (filter (locations_where (collation_lower sample_db) ''o1'' None) (location_tbl sample_db)) \<rparr>"
    by blast
  then have g: "locations (projr (getLocations sample_db ''o1'' (Some 2) (Some 2) None)) =
       [include_row sample_db (sample_loc ''l1'' ''Shelf A'' ''o1'' (Some ''i1'') 1)]"
    by (simp add: skip_of_def take_of_def default_to_def order_updatedAt_desc_def
        locations_where_def truthy_def sample_db_def sample_loc_def)
  show ?thesis using h g sample_getLocation by (simp add: sample_params_def)
qed

text \<open>
  Claim C6. The effective page size is clamped to a maximum of 25. The source says so in its
  comment (\<^verbatim>\<open>// min 1 and max 25 per page\<close>) but computes
  \<^verbatim>\<open>perPage >= 1 ? perPage : 8\<close>: with \<^verbatim>\<open>perPage = 100\<close> the page size is 100, and a
  table of 30 locations comes back as one page of 30 rows.
\<close>

theorem page_size_not_clamped:
  "take_of 100 = 100
   \<and> (\<exists>r. getLocations
            \<lparr> location_tbl = map (\<lambda>k. sample_loc (replicate (Suc k) CHR ''x'')
                                      (replicate (Suc k) CHR ''n'') ''o1'' None 0) [0..<30],
              image_tbl = [], asset_tbl = [], collation_lower = ascii_lower \<rparr>
            ''o1'' None (Some 100) None = Inr r \<and> length (locations r) = 30)"
  by (simp add: getLocations_def Let_def default_to_def skip_of_def take_of_def paginate_def
      locations_where_def truthy_def order_updatedAt_desc_def sample_loc_def)

section \<open>Bulk deletion\<close>

lemma map_throwing_invariant:
  "map_throwing (\<lambda>l. invariant (imageId l) msg) (filter (\<lambda>l. truthy (imageId l)) ls) =
     Inr (map (\<lambda>l. the (imageId l)) (filter (\<lambda>l. truthy (imageId l)) ls))"
  by (induction ls) (simp_all add: invariant_def)

lemma bulkDelete_tx_eq:
  "bulkDelete_tx locs d =
     (Inr (),
      image_deleteMany (map (\<lambda>l. the (imageId l)) (filter (\<lambda>l. truthy (imageId l)) locs))
        (location_deleteMany (map loc_id locs) d))"
  by (simp add: bulkDelete_tx_def Let_def map_throwing_invariant)

lemma bulkDeleteLocations_eq:
  "bulkDeleteLocations K d ids org =
     (Inr (),
      image_deleteMany
        (map (\<lambda>l. the (imageId l))
           (filter (\<lambda>l. truthy (imageId l)) (filter (bulk_where K ids org) (location_tbl d))))
        (location_deleteMany (map loc_id (filter (bulk_where K ids org) (location_tbl d))) d))"
  by (simp add: bulkDeleteLocations_def bulkDelete_tx_eq transaction_def Let_def)

lemma unique_id_mem:
  assumes "distinct (map loc_id ls)" and "l \<in> set ls"
  shows "loc_id l \<in> loc_id ` {x \<in> set ls. P x} \<longleftrightarrow> P l"
proof
  assume "loc_id l \<in> loc_id ` {x \<in> set ls. P x}"
  then obtain x where x: "x \<in> set ls" "P x" "loc_id x = loc_id l" by auto
  from assms(1) have "inj_on loc_id (set ls)" by (simp add: distinct_map)
  with x assms(2) have "x = l" by (auto dest: inj_onD)
  with x show "P l" by simp
next
  assume "P l" with assms(2) show "loc_id l \<in> loc_id ` {x \<in> set ls. P x}" by auto
qed

lemma deleteMany_selected:
  assumes "distinct (map loc_id ls)"
  shows "filter (\<lambda>l. loc_id l \<notin> set (map loc_id (filter P ls))) ls = filter (\<lambda>l. \<not> P l) ls"
proof (rule filter_cong [OF refl])
  fix l assume "l \<in> set ls"
  then show "(loc_id l \<notin> set (map loc_id (filter P ls))) = (\<not> P l)"
    using unique_id_mem [OF assms, of l P] by simp
qed

lemma sample_db_unique: "location_ids_unique sample_db"
  by (simp add: location_ids_unique_def sample_defs)

text \<open>
  Claim C1. For every call of \<^verbatim>\<open>bulkDeleteLocations\<close> with an organization and a list of
  location ids (on a table whose ids are unique): the call succeeds; if the list contains the
  "all selected" key, every location of the organization is deleted, whatever other ids the
  list holds, and the locations of other organizations stay; otherwise exactly the listed ids
  that belong to the organization are deleted.
\<close>

theorem bulkDeleteLocations_selection:
  assumes "location_ids_unique d"
  shows "fst (bulkDeleteLocations K d ids org) = Inr ()
    \<and> (K \<in> set ids \<longrightarrow>
         location_tbl (snd (bulkDeleteLocations K d ids org)) =
           filter (\<lambda>l. organizationId l \<noteq> org) (location_tbl d))
    \<and> (K \<notin> set ids \<longrightarrow>
         location_tbl (snd (bulkDeleteLocations K d ids org)) =
           filter (\<lambda>l. \<not> (loc_id l \<in> set ids \<and> organizationId l = org)) (location_tbl d))"
proof -
  from assms have u: "distinct (map loc_id (location_tbl d))"
    by (simp add: location_ids_unique_def)
  have *: "location_tbl (snd (bulkDeleteLocations K d ids org)) =
      filter (\<lambda>l. \<not> bulk_where K ids org l) (location_tbl d)"
    by (simp add: bulkDeleteLocations_eq image_deleteMany_def location_deleteMany_def
        deleteMany_selected [OF u, simplified])
  have "fst (bulkDeleteLocations K d ids org) = Inr ()"
    by (simp add: bulkDeleteLocations_eq)
  moreover have "K \<in> set ids \<longrightarrow>
         location_tbl (snd (bulkDeleteLocations K d ids org)) =
           filter (\<lambda>l. organizationId l \<noteq> org) (location_tbl d)"
    unfolding * by (simp add: bulk_where_def)
  moreover have "K \<notin> set ids \<longrightarrow>
         location_tbl (snd (bulkDeleteLocations K d ids org)) =
           filter (\<lambda>l. \<not> (loc_id l \<in> set ids \<and> organizationId l = org)) (location_tbl d)"
    unfolding * by (simp add: bulk_where_def)
  ultimately show ?thesis by blast
qed

theorem bulkDeleteLocations_selection_witness:
  "location_ids_unique sample_db
   \<and> location_tbl (snd (bulkDeleteLocations ''all-selected'' sample_db [''l2'', ''all-selected''] ''o1''))
       = [sample_loc ''l4'' ''Shelf A'' ''o2'' (Some ''i4'') 4]
   \<and> location_tbl (snd (bulkDeleteLocations ''all-selected'' sample_db [''l2'', ''l4''] ''o1''))
       = [sample_loc ''l1'' ''Shelf A'' ''o1'' (Some ''i1'') 1,
          sample_loc ''l3'' ''Attic'' ''o1'' (Some ''i3'') 3,
          sample_loc ''l4'' ''Shelf A'' ''o2'' (Some ''i4'') 4]"
  using bulkDeleteLocations_selection [OF sample_db_unique, of "''all-selected''" "[''l2'', ''all-selected'']" "''o1''"]
    bulkDeleteLocations_selection [OF sample_db_unique, of "''all-selected''" "[''l2'', ''l4'']" "''o1''"]
    sample_db_unique
  by (simp add: sample_db_def sample_loc_def)

section \<open>Closing the modal\<close>

lemma close_funpow:
  "isSubmitting s \<Longrightarrow> (close ^^ n) s = s"
  by (induction n) (simp_all add: close_def)

text \<open>
  Claim C2. In every state of the bulk-update modal controller, \<^verbatim>\<open>close()\<close> while
  \<^verbatim>\<open>isSubmitting\<close> is true leaves the state unchanged, however often it is called, so an
  open modal stays open; so does a click on the Cancel button of the location modal. While
  \<^verbatim>\<open>isSubmitting\<close> is false, \<^verbatim>\<open>close()\<close> sets \<^verbatim>\<open>isOpen\<close> to false and changes nothing
  else.
\<close>

theorem close_during_submission:
  "(isSubmitting s \<longrightarrow>
      close s = s \<and> handleCloseDialog s = s \<and> cancel_click s = s
      \<and> (close ^^ n) s = s \<and> (isOpen s \<longrightarrow> isOpen (close s)))
   \<and> (\<not> isSubmitting s \<longrightarrow>
      close s = s\<lparr>isOpen := False\<rparr> \<and> \<not> isOpen (close s))"
  by (simp add: close_funpow)
    (simp add: close_def handleCloseDialog_def cancel_click_def disabled_def)

theorem close_during_submission_witness:
  "isSubmitting \<lparr> isOpen = True, isSubmitting = True \<rparr>
   \<and> close \<lparr> isOpen = True, isSubmitting = True \<rparr> = \<lparr> isOpen = True, isSubmitting = True \<rparr>
   \<and> isOpen (close \<lparr> isOpen = True, isSubmitting = True \<rparr>)
   \<and> \<not> isSubmitting \<lparr> isOpen = True, isSubmitting = False \<rparr>
   \<and> \<not> isOpen (close \<lparr> isOpen = True, isSubmitting = False \<rparr>)"
  using close_during_submission [of "\<lparr> isOpen = True, isSubmitting = True \<rparr>" 1]
    close_during_submission [of "\<lparr> isOpen = True, isSubmitting = False \<rparr>" 1]
  by simp

section \<open>Duplicate names\<close>

lemma createLocation_taken:
  assumes "name_taken d n org"
  shows "\<exists>e. createLocation d newId now n desc addr uid org = (Inl e, d)
           \<and> isUniqueViolation (e_cause e) \<and> e_message e = duplicate_name_message ''Location''"
  using assms
  by (simp add: createLocation_def location_create_def maybeUniqueConstraintViolation_def
      isUniqueViolation_def)

lemma createLocation_free:
  assumes "\<not> name_taken d n org" and "newId \<notin> loc_id ` set (location_tbl d)"
  shows "createLocation d newId now n desc addr uid org =
     (Inr \<lparr> loc_id = newId, name = n, description = desc, address = addr,
            organizationId = org, userId = uid, imageId = None, updatedAt = now \<rparr>,
      d\<lparr>location_tbl := location_tbl d @
         [\<lparr> loc_id = newId, name = n, description = desc, address = addr,
            organizationId = org, userId = uid, imageId = None, updatedAt = now \<rparr>]\<rparr>)"
  using assms by (simp add: createLocation_def location_create_def Let_def)

lemma updateLocation_taken:
  assumes "find (\<lambda>l. loc_id l = i \<and> organizationId l = org) (location_tbl d) = Some l0"
    and "\<exists>l' \<in> set (location_tbl d). loc_id l' \<noteq> i \<and> name l' = n \<and> organizationId l' = org"
  shows "\<exists>e. updateLocation d now i (Some n) addr desc uid org = (Inl e, d)
           \<and> isUniqueViolation (e_cause e) \<and> e_message e = duplicate_name_message ''Location''"
  using assms
  by (simp add: updateLocation_def location_update_def maybeUniqueConstraintViolation_def
      isUniqueViolation_def)

lemma updateLocation_free:
  assumes "find (\<lambda>l. loc_id l = i \<and> organizationId l = org) (location_tbl d) = Some l0"
    and "\<not> (\<exists>l' \<in> set (location_tbl d). loc_id l' \<noteq> i \<and> name l' = n \<and> organizationId l' = org)"
  shows "fst (updateLocation d now i (Some n) addr desc uid org) =
           Inr (apply_update now (Some n) desc addr l0)"
  using assms
  by (simp add: updateLocation_def location_update_def)

lemma updateLocation_free_db:
  assumes "find (\<lambda>l. loc_id l = i \<and> organizationId l = org) (location_tbl d) = Some l0"
    and "\<not> (\<exists>l' \<in> set (location_tbl d). loc_id l' \<noteq> i \<and> name l' = n \<and> organizationId l' = org)"
  shows "snd (updateLocation d now i (Some n) addr desc uid org) =
           d\<lparr>location_tbl :=
               map (\<lambda>l'. if loc_id l' = i \<and> organizationId l' = org
                          then apply_update now (Some n) desc addr l' else l')
                 (location_tbl d)\<rparr>"
proof -
  have "location_update d now i org (Some n) desc addr =
      Inr (apply_update now (Some n) desc addr l0,
           d\<lparr>location_tbl :=
               map (\<lambda>l'. if loc_id l' = i \<and> organizationId l' = org
                          then apply_update now (Some n) desc addr l' else l')
                 (location_tbl d)\<rparr>)"
    unfolding location_update_def using assms by (simp del: not_ex bex_simps)
  then show ?thesis
    by (simp add: updateLocation_def)
qed

text \<open>
  Claim C4. \<^verbatim>\<open>createLocation\<close> with a name that a location of the same organization
  already has fails, leaves the database as it is, and throws the error with the duplicate-name
  message, which wraps the unique-constraint violation; when no location of the same
  organization has the name (a location of another organization may), and the generated id is
  new, it succeeds and adds the location. \<^verbatim>\<open>updateLocation\<close> of an existing location of the
  organization, to a name that another location of the same organization has, fails in the
  same way; when no other location of the organization has the name, it succeeds, returns the
  updated location, and the table holds the updated row in place of the old one, every other
  row unchanged.
\<close>

theorem duplicate_name_is_reported:
  "(name_taken d n org \<longrightarrow>
      (\<exists>e. createLocation d newId now n desc addr uid org = (Inl e, d)
           \<and> isUniqueViolation (e_cause e) \<and> e_message e = duplicate_name_message ''Location''))
   \<and> (\<not> name_taken d n org \<and> newId \<notin> loc_id ` set (location_tbl d) \<longrightarrow>
        createLocation d newId now n desc addr uid org =
          (Inr \<lparr> loc_id = newId, name = n, description = desc, address = addr,
                 organizationId = org, userId = uid, imageId = None, updatedAt = now \<rparr>,
           d\<lparr>location_tbl := location_tbl d @
              [\<lparr> loc_id = newId, name = n, description = desc, address = addr,
                 organizationId = org, userId = uid, imageId = None, updatedAt = now \<rparr>]\<rparr>))
   \<and> (find (\<lambda>l. loc_id l = i \<and> organizationId l = org) (location_tbl d) = Some l0
        \<and> (\<exists>l' \<in> set (location_tbl d). loc_id l' \<noteq> i \<and> name l' = n \<and> organizationId l' = org) \<longrightarrow>
        (\<exists>e. updateLocation d now i (Some n) addr' desc' uid org = (Inl e, d)
           \<and> isUniqueViolation (e_cause e) \<and> e_message e = duplicate_name_message ''Location''))
   \<and> (find (\<lambda>l. loc_id l = i \<and> organizationId l = org) (location_tbl d) = Some l0
        \<and> \<not> (\<exists>l' \<in> set (location_tbl d). loc_id l' \<noteq> i \<and> name l' = n \<and> organizationId l' = org) \<longrightarrow>
        fst (updateLocation d now i (Some n) addr' desc' uid org) =
           Inr (apply_update now (Some n) desc' addr' l0))
   \<and> (find (\<lambda>l. loc_id l = i \<and> organizationId l = org) (location_tbl d) = Some l0
        \<and> \<not> (\<exists>l' \<in> set (location_tbl d). loc_id l' \<noteq> i \<and> name l' = n \<and> organizationId l' = org) \<longrightarrow>
        snd (updateLocation d now i (Some n) addr' desc' uid org) =
           d\<lparr>location_tbl :=
               map (\<lambda>l'. if loc_id l' = i \<and> organizationId l' = org
                          then apply_update now (Some n) desc' addr' l' else l')
                 (location_tbl d)\<rparr>)"
  using createLocation_taken [of d n org newId now desc addr uid]
    createLocation_free [of d n org newId now desc addr uid]
    updateLocation_taken [of i org d l0 n now addr' desc' uid]
    updateLocation_free [of i org d l0 n now addr' desc' uid]
    updateLocation_free_db [of i org d l0 n now addr' desc' uid]
  by blast

theorem duplicate_name_is_reported_witness:
  "name_taken sample_db ''Shelf A'' ''o1''
   \<and> fst (createLocation sample_db ''l5'' 9 ''Shelf A'' None None ''u1'' ''o1'') =
       Inl (ShelfError (Prisma (UniqueConstraintFailed [''name'', ''organizationId''])) None
              (duplicate_name_message ''Location'')
              [(''userId'', JStr ''u1''), (''organizationId'', JStr ''o1'')] ''Location'' None None)
   \<and> \<not> name_taken sample_db ''Attic'' ''o2'' \<and> ''l5'' \<notin> loc_id ` set (location_tbl sample_db)
   \<and> fst (createLocation sample_db ''l5'' 9 ''Attic'' None None ''u1'' ''o2'') =
       Inr (sample_loc ''l5'' ''Attic'' ''o2'' None 9)
   \<and> fst (updateLocation sample_db 9 ''l2'' (Some ''Attic'') None None ''u1'' ''o1'') =
       Inl (ShelfError (Prisma (UniqueConstraintFailed [''name'', ''organizationId''])) None
              (duplicate_name_message ''Location'')
              [(''id'', JStr ''l2''), (''userId'', JStr ''u1''), (''organizationId'', JStr ''o1'')]
              ''Location'' None None)
   \<and> fst (updateLocation sample_db 9 ''l4'' (Some ''Attic'') None None ''u1'' ''o2'') =
       Inr (sample_loc ''l4'' ''Attic'' ''o2'' (Some ''i4'') 9)
   \<and> location_tbl (snd (updateLocation sample_db 9 ''l4'' (Some ''Attic'') None None ''u1'' ''o2'')) =
       [sample_loc ''l1'' ''Shelf A'' ''o1'' (Some ''i1'') 1,
        sample_loc ''l2'' ''shelf b'' ''o1'' None 2,
        sample_loc ''l3'' ''Attic'' ''o1'' (Some ''i3'') 3,
        sample_loc ''l4'' ''Attic'' ''o2'' (Some ''i4'') 9]"
proof -
  have h1: "name_taken sample_db ''Shelf A'' ''o1''"
    by (simp add: name_taken_def sample_db_def sample_loc_def)
  have h2: "\<not> name_taken sample_db ''Attic'' ''o2'' \<and> ''l5'' \<notin> loc_id ` set (location_tbl sample_db)"
    by (simp add: name_taken_def sample_db_def sample_loc_def)
  have h3: "find (\<lambda>l. loc_id l = ''l2'' \<and> organizationId l = ''o1'') (location_tbl sample_db) =
       Some (sample_loc ''l2'' ''shelf b'' ''o1'' None 2)
     \<and> (\<exists>l' \<in> set (location_tbl sample_db).
           loc_id l' \<noteq> ''l2'' \<and> name l' = ''Attic'' \<and> organizationId l' = ''o1'')"
    by (simp add: sample_db_def sample_loc_def)
  have h4: "find (\<lambda>l. loc_id l = ''l4'' \<and> organizationId l = ''o2'') (location_tbl sample_db) =
       Some (sample_loc ''l4'' ''Shelf A'' ''o2'' (Some ''i4'') 4)
     \<and> \<not> (\<exists>l' \<in> set (location_tbl sample_db).
           loc_id l' \<noteq> ''l4'' \<and> name l' = ''Attic'' \<and> organizationId l' = ''o2'')"
    by (simp add: sample_db_def sample_loc_def)
  note a = duplicate_name_is_reported [of sample_db "''Shelf A''" "''o1''" "''l5''" 9 None None "''u1''"]
  note b = duplicate_name_is_reported [of sample_db "''Attic''" "''o2''" "''l5''" 9 None None "''u1''"
      "''l4''" "sample_loc ''l4'' ''Shelf A'' ''o2'' (Some ''i4'') 4" None None]
  note c = duplicate_name_is_reported [of sample_db "''Attic''" "''o1''" "''l5''" 9 None None "''u1''"
      "''l2''" "sample_loc ''l2'' ''shelf b'' ''o1'' None 2" None None]
  from a h1 have r1: "fst (createLocation sample_db ''l5'' 9 ''Shelf A'' None None ''u1'' ''o1'') =
       Inl (ShelfError (Prisma (UniqueConstraintFailed [''name'', ''organizationId''])) None
              (duplicate_name_message ''Location'')
              [(''userId'', JStr ''u1''), (''organizationId'', JStr ''o1'')] ''Location'' None None)"
    by (simp add: createLocation_def location_create_def maybeUniqueConstraintViolation_def
        isUniqueViolation_def sample_db_def sample_loc_def)
  from b h2 have r2: "fst (createLocation sample_db ''l5'' 9 ''Attic'' None None ''u1'' ''o2'') =
       Inr (sample_loc ''l5'' ''Attic'' ''o2'' None 9)"
    by (simp add: sample_loc_def)
  from c h3 have r3: "fst (updateLocation sample_db 9 ''l2'' (Some ''Attic'') None None ''u1'' ''o1'') =
       Inl (ShelfError (Prisma (UniqueConstraintFailed [''name'', ''organizationId''])) None
              (duplicate_name_message ''Location'')
              [(''id'', JStr ''l2''), (''userId'', JStr ''u1''), (''organizationId'', JStr ''o1'')]
              ''Location'' None None)"
    by (simp add: updateLocation_def location_update_def maybeUniqueConstraintViolation_def
        isUniqueViolation_def sample_db_def sample_loc_def)
  from b h4 have r4: "fst (updateLocation sample_db 9 ''l4'' (Some ''Attic'') None None ''u1'' ''o2'') =
       Inr (sample_loc ''l4'' ''Attic'' ''o2'' (Some ''i4'') 9)"
    by (simp add: apply_update_def default_to_def sample_loc_def)
  from b h4 have r5:
    "location_tbl (snd (updateLocation sample_db 9 ''l4'' (Some ''Attic'') None None ''u1'' ''o2'')) =
       [sample_loc ''l1'' ''Shelf A'' ''o1'' (Some ''i1'') 1,
        sample_loc ''l2'' ''shelf b'' ''o1'' None 2,
        sample_loc ''l3'' ''Attic'' ''o1'' (Some ''i3'') 3,
        sample_loc ''l4'' ''Attic'' ''o2'' (Some ''i4'') 9]"
    by (simp add: apply_update_def default_to_def sample_db_def sample_loc_def)
  show ?thesis using h1 h2 r1 r2 r3 r4 r5 by simp
qed

section \<open>Locations that are not found\<close>

lemma find_unique_id:
  assumes "distinct (map loc_id ls)" and "l \<in> set ls" and "P l"
    and "\<forall>x. P x \<longrightarrow> loc_id x = loc_id l"
  shows "find P ls = Some l"
  using assms(1,2)
proof (induction ls)
  case Nil
  then show ?case by simp
next
  case (Cons a ls)
  show ?case
  proof (cases "a = l")
    case True
    with assms(3) show ?thesis by simp
  next
    case False
    with Cons.prems have l: "l \<in> set ls" by simp
    with Cons.prems(1) have "loc_id a \<noteq> loc_id l" by force
    with assms(4) have "\<not> P a" by blast
    moreover from Cons.prems(1) l Cons.IH have "find P ls = Some l" by simp
    ultimately show ?thesis by simp
  qed
qed

lemma find_absent:
  assumes "\<forall>l \<in> set (location_tbl d). loc_id l = p_id p \<longrightarrow>
      organizationId l \<noteq> p_organizationId p \<and>
      (\<forall>orgs. p_userOrganizations p = Some orgs \<longrightarrow> organizationId l \<notin> set orgs)"
  shows "find (location_where (p_id p) (p_organizationId p) (p_userOrganizations p))
          (location_tbl d) = None"
  using assms by (auto simp: find_None_iff location_where_def has_length_def split: option.splits)

lemma getLocation_absent:
  assumes "find (location_where (p_id p) (p_organizationId p) (p_userOrganizations p))
          (location_tbl d) = None"
  shows "getLocation order_by g d p =
     Inl (getLocation_catch (p_id p) (p_organizationId p)
            (Prisma (case (case p_include p of
                             Some inc \<Rightarrow> Inr inc
                           | None \<Rightarrow>
                               default_include order_by
                                 (skip_of (default_to 1 (p_page p)) (default_to 8 (p_perPage p)))
                                 (take_of (default_to 8 (p_perPage p))) (p_search p)
                                 (default_to ''createdAt'' (p_orderBy p)) (p_orderDirection p)) of
                       Inl e \<Rightarrow> e
                     | Inr _ \<Rightarrow> RecordNotFound)))"
  using assms
  by (simp add: getLocation_def getLocation_try_def findFirstOrThrow_def Let_def
      split: sum.splits option.splits)

lemma getLocation_absent_error:
  assumes "find (location_where (p_id p) (p_organizationId p) (p_userOrganizations p))
          (location_tbl d) = None"
  shows "\<exists>pe. getLocation order_by g d p =
     Inl (ShelfError (Prisma pe) (Some ''Location not found'') getLocation_message
            [(''id'', JStr (p_id p)), (''organizationId'', JStr (p_organizationId p))]
            label None (Some (pe \<noteq> RecordNotFound)))"
  unfolding getLocation_absent [OF assms]
  by (simp add: getLocation_catch_def isNotFoundError_def)

lemma getLocation_absent_valid:
  assumes "find (location_where (p_id p) (p_organizationId p) (p_userOrganizations p))
          (location_tbl d) = None"
    and "p_include p = None \<longrightarrow>
           0 \<le> skip_of (default_to 1 (p_page p)) (default_to 8 (p_perPage p))
           \<and> order_by (default_to ''createdAt'' (p_orderBy p)) (p_orderDirection p) \<noteq> None"
  shows "getLocation order_by g d p =
     Inl (ShelfError (Prisma RecordNotFound) (Some ''Location not found'') getLocation_message
            [(''id'', JStr (p_id p)), (''organizationId'', JStr (p_organizationId p))]
            label None (Some False))"
  unfolding getLocation_absent [OF assms(1)] using assms(2)
  by (auto simp: getLocation_catch_def isNotFoundError_def default_include_def
      split: option.splits)

lemma getLocation_other_organization:
  assumes u: "location_ids_unique d" and l: "l \<in> set (location_tbl d)" "loc_id l = p_id p"
    and o: "organizationId l \<noteq> p_organizationId p"
    and m: "p_userOrganizations p = Some orgs" "organizationId l \<in> set orgs"
  shows "\<exists>e. getLocation order_by g d p = Inl e
          \<and> e_title e = Some ''Location not found'' \<and> e_message e = getLocation_message
          \<and> e_status e = None
          \<and> ((\<exists>pe. e_cause e = Prisma pe)
             \<or> (e_cause e =
                   Shelf (ShelfError NoCause (Some ''Location not found.'') []
                     [(''model'', JStr ''location''),
                      (''organization'', JStr (organizationId l)),
                      (''redirectTo'',
                         (case p_request p of None \<Rightarrow> JUndefined | Some r \<Rightarrow> JStr (g r)))]
                     label (Some 404) (Some False))
                \<and> e_additionalData e =
                   [(''id'', JStr (p_id p)), (''organizationId'', JStr (p_organizationId p)),
                    (''model'', JStr ''location''),
                    (''organization'', JStr (organizationId l)),
                    (''redirectTo'',
                       (case p_request p of None \<Rightarrow> JUndefined | Some r \<Rightarrow> JStr (g r)))]))"
proof -
  from m have hl: "has_length (p_userOrganizations p)"
    by (auto simp: has_length_def)
  have f: "find (location_where (p_id p) (p_organizationId p) (p_userOrganizations p))
          (location_tbl d) = Some l"
  proof (rule find_unique_id)
    show "distinct (map loc_id (location_tbl d))"
      using u by (simp add: location_ids_unique_def)
    show "l \<in> set (location_tbl d)" by (rule l(1))
    show "location_where (p_id p) (p_organizationId p) (p_userOrganizations p) l"
      using l m hl by (simp add: location_where_def)
    show "\<forall>x. location_where (p_id p) (p_organizationId p) (p_userOrganizations p) x
        \<longrightarrow> loc_id x = loc_id l"
      using l by (auto simp: location_where_def)
  qed
  from m obtain o' where fo: "find (\<lambda>org. org = organizationId l) orgs = Some o'"
    by (cases "find (\<lambda>org. org = organizationId l) orgs") (auto simp: find_None_iff)
  then have o': "o' = organizationId l"
    by (auto simp: find_Some_iff)
  show ?thesis
    using f o m hl fo o'
    by (auto simp: getLocation_def getLocation_try_def findFirstOrThrow_def Let_def
        getLocation_catch_def split: sum.splits option.splits)
qed

lemma getLocation_other_organization_valid:
  assumes u: "location_ids_unique d" and l: "l \<in> set (location_tbl d)" "loc_id l = p_id p"
    and o: "organizationId l \<noteq> p_organizationId p"
    and m: "p_userOrganizations p = Some orgs" "organizationId l \<in> set orgs"
    and v: "p_include p = None \<longrightarrow>
           0 \<le> skip_of (default_to 1 (p_page p)) (default_to 8 (p_perPage p))
           \<and> order_by (default_to ''createdAt'' (p_orderBy p)) (p_orderDirection p) \<noteq> None"
  shows "getLocation order_by g d p =
     Inl (ShelfError
            (Shelf (ShelfError NoCause (Some ''Location not found.'') []
                     [(''model'', JStr ''location''),
                      (''organization'', JStr (organizationId l)),
                      (''redirectTo'',
                         (case p_request p of None \<Rightarrow> JUndefined | Some r \<Rightarrow> JStr (g r)))]
                     label (Some 404) (Some False)))
            (Some ''Location not found'') getLocation_message
            [(''id'', JStr (p_id p)), (''organizationId'', JStr (p_organizationId p)),
             (''model'', JStr ''location''),
             (''organization'', JStr (organizationId l)),
             (''redirectTo'',
                (case p_request p of None \<Rightarrow> JUndefined | Some r \<Rightarrow> JStr (g r)))]
            label None (Some False))"
proof -
  from m have hl: "has_length (p_userOrganizations p)"
    by (auto simp: has_length_def)
  have f: "find (location_where (p_id p) (p_organizationId p) (p_userOrganizations p))
          (location_tbl d) = Some l"
  proof (rule find_unique_id)
    show "distinct (map loc_id (location_tbl d))"
      using u by (simp add: location_ids_unique_def)
    show "l \<in> set (location_tbl d)" by (rule l(1))
    show "location_where (p_id p) (p_organizationId p) (p_userOrganizations p) l"
      using l m hl by (simp add: location_where_def)
    show "\<forall>x. location_where (p_id p) (p_organizationId p) (p_userOrganizations p) x
        \<longrightarrow> loc_id x = loc_id l"
      using l by (auto simp: location_where_def)
  qed
  from m obtain o' where fo: "find (\<lambda>org. org = organizationId l) orgs = Some o'"
    by (cases "find (\<lambda>org. org = organizationId l) orgs") (auto simp: find_None_iff)
  then have o': "o' = organizationId l"
    by (auto simp: find_Some_iff)
  show ?thesis
    using f o m hl fo o' v
    by (auto simp: getLocation_def getLocation_try_def findFirstOrThrow_def Let_def
        getLocation_catch_def default_include_def split: sum.splits option.splits)
qed

text \<open>
  Claim C3, as stated: a location id that does not exist and a location of another organization
  both end in an error of status 404 that the caller cannot tell apart. With
  \<^verbatim>\<open>userOrganizations\<close> holding the caller's organizations "o1" and "o2", asking
  organization "o1" for a location of "o2" throws an error whose \<^verbatim>\<open>additionalData\<close> names
  the model, the organization "o2" and \<^verbatim>\<open>redirectTo\<close>, and whose cause has the status 404;
  asking for the same id where no such location exists throws an error without them, whose
  cause is Prisma's "record not found". Neither error is constructed with a status of its own.
\<close>

theorem getLocation_distinguishes_counterexample:
  "getLocation table_order sample_redirect empty_db
     ((sample_params ''l4'' ''o1'')\<lparr>p_userOrganizations := Some [''o1'', ''o2'']\<rparr>) =
     Inl (ShelfError (Prisma RecordNotFound) (Some ''Location not found'') getLocation_message
            [(''id'', JStr ''l4''), (''organizationId'', JStr ''o1'')] ''Location'' None
            (Some False))
   \<and> getLocation table_order sample_redirect sample_db
     ((sample_params ''l4'' ''o1'')\<lparr>p_userOrganizations := Some [''o1'', ''o2'']\<rparr>) =
     Inl (ShelfError
            (Shelf (ShelfError NoCause (Some ''Location not found.'') []
                      [(''model'', JStr ''location''), (''organization'', JStr ''o2''),
                       (''redirectTo'', JUndefined)] ''Location'' (Some 404) (Some False)))
            (Some ''Location not found'') getLocation_message
            [(''id'', JStr ''l4''), (''organizationId'', JStr ''o1''),
             (''model'', JStr ''location''), (''organization'', JStr ''o2''),
             (''redirectTo'', JUndefined)] ''Location'' None (Some False))
   \<and> getLocation table_order sample_redirect empty_db
       ((sample_params ''l4'' ''o1'')\<lparr>p_userOrganizations := Some [''o1'', ''o2'']\<rparr>) \<noteq>
     getLocation table_order sample_redirect sample_db
       ((sample_params ''l4'' ''o1'')\<lparr>p_userOrganizations := Some [''o1'', ''o2'']\<rparr>)"
  by (simp add: getLocation_def getLocation_try_def findFirstOrThrow_def location_where_def
      has_length_def default_include_def assets_where_def truthy_def paginate_def skip_of_def
      take_of_def default_to_def getLocation_catch_def isNotFoundError_def label_def
      empty_db_def sample_defs)

text \<open>
  Claim C3, amended: with the same parameters, \<^verbatim>\<open>getLocation\<close> throws the same
  "Location not found" error on every database in which no location with the id belongs to the
  caller's organization or to one of \<^verbatim>\<open>userOrganizations\<close>, whether there is no location
  with the id or one in some other organization: the caller cannot tell these apart. When
  Prisma accepts the query, the cause of that error is "record not found". For the id of a
  location of another organization that is listed in \<^verbatim>\<open>userOrganizations\<close>,
  \<^verbatim>\<open>getLocation\<close> also throws a "Location not found" error with the same message, built
  without a status of its own; when Prisma accepts the query, its cause is a \<^verbatim>\<open>ShelfError\<close>
  of status 404 and its \<^verbatim>\<open>additionalData\<close> names the model, the organization of the
  location and \<^verbatim>\<open>redirectTo\<close>.
\<close>

theorem getLocation_not_found:
  "((\<forall>l \<in> set (location_tbl d). loc_id l = p_id p \<longrightarrow>
        organizationId l \<noteq> p_organizationId p \<and>
        (\<forall>orgs. p_userOrganizations p = Some orgs \<longrightarrow> organizationId l \<notin> set orgs))
     \<and> (\<forall>l \<in> set (location_tbl d'). loc_id l = p_id p \<longrightarrow>
        organizationId l \<noteq> p_organizationId p \<and>
        (\<forall>orgs. p_userOrganizations p = Some orgs \<longrightarrow> organizationId l \<notin> set orgs)) \<longrightarrow>
      getLocation order_by g d p = getLocation order_by g d' p
      \<and> (\<exists>pe. getLocation order_by g d p =
            Inl (ShelfError (Prisma pe) (Some ''Location not found'') getLocation_message
                   [(''id'', JStr (p_id p)), (''organizationId'', JStr (p_organizationId p))]
                   label None (Some (pe \<noteq> RecordNotFound)))))
   \<and> ((\<forall>l \<in> set (location_tbl d). loc_id l = p_id p \<longrightarrow>
        organizationId l \<noteq> p_organizationId p \<and>
        (\<forall>orgs. p_userOrganizations p = Some orgs \<longrightarrow> organizationId l \<notin> set orgs))
      \<and> (p_include p = None \<longrightarrow>
           0 \<le> skip_of (default_to 1 (p_page p)) (default_to 8 (p_perPage p))
           \<and> order_by (default_to ''createdAt'' (p_orderBy p)) (p_orderDirection p) \<noteq> None) \<longrightarrow>
      getLocation order_by g d p =
        Inl (ShelfError (Prisma RecordNotFound) (Some ''Location not found'') getLocation_message
               [(''id'', JStr (p_id p)), (''organizationId'', JStr (p_organizationId p))]
               label None (Some False)))
   \<and> (location_ids_unique d \<and> l \<in> set (location_tbl d) \<and> loc_id l = p_id p
        \<and> organizationId l \<noteq> p_organizationId p
        \<and> p_userOrganizations p = Some orgs \<and> organizationId l \<in> set orgs \<longrightarrow>
      (\<exists>e. getLocation order_by g d p = Inl e
          \<and> e_title e = Some ''Location not found'' \<and> e_message e = getLocation_message
          \<and> e_status e = None)
      \<and> ((p_include p = None \<longrightarrow>
             0 \<le> skip_of (default_to 1 (p_page p)) (default_to 8 (p_perPage p))
             \<and> order_by (default_to ''createdAt'' (p_orderBy p)) (p_orderDirection p) \<noteq> None) \<longrightarrow>
           getLocation order_by g d p =
             Inl (ShelfError
                    (Shelf (ShelfError NoCause (Some ''Location not found.'') []
                       [(''model'', JStr ''location''),
                        (''organization'', JStr (organizationId l)),
                        (''redirectTo'',
                           (case p_request p of None \<Rightarrow> JUndefined | Some r \<Rightarrow> JStr (g r)))]
                       label (Some 404) (Some False)))
                    (Some ''Location not found'') getLocation_message
                    [(''id'', JStr (p_id p)), (''organizationId'', JStr (p_organizationId p)),
                     (''model'', JStr ''location''),
                     (''organization'', JStr (organizationId l)),
                     (''redirectTo'',
                        (case p_request p of None \<Rightarrow> JUndefined | Some r \<Rightarrow> JStr (g r)))]
                    label None (Some False))))"
proof (intro conjI impI)
  assume a: "(\<forall>l \<in> set (location_tbl d). loc_id l = p_id p \<longrightarrow>
        organizationId l \<noteq> p_organizationId p \<and>
        (\<forall>orgs. p_userOrganizations p = Some orgs \<longrightarrow> organizationId l \<notin> set orgs))
     \<and> (\<forall>l \<in> set (location_tbl d'). loc_id l = p_id p \<longrightarrow>
        organizationId l \<noteq> p_organizationId p \<and>
        (\<forall>orgs. p_userOrganizations p = Some orgs \<longrightarrow> organizationId l \<notin> set orgs))"
  then have f: "find (location_where (p_id p) (p_organizationId p) (p_userOrganizations p))
          (location_tbl d) = None"
    by (intro find_absent) (rule conjunct1)
  from a have f': "find (location_where (p_id p) (p_organizationId p) (p_userOrganizations p))
          (location_tbl d') = None"
    by (intro find_absent) (rule conjunct2)
  show "getLocation order_by g d p = getLocation order_by g d' p"
    by (simp only: getLocation_absent [OF f] getLocation_absent [OF f'])
  show "\<exists>pe. getLocation order_by g d p =
            Inl (ShelfError (Prisma pe) (Some ''Location not found'') getLocation_message
                   [(''id'', JStr (p_id p)), (''organizationId'', JStr (p_organizationId p))]
                   label None (Some (pe \<noteq> RecordNotFound)))"
    by (rule getLocation_absent_error [OF f])
next
  assume a: "(\<forall>l \<in> set (location_tbl d). loc_id l = p_id p \<longrightarrow>
        organizationId l \<noteq> p_organizationId p \<and>
        (\<forall>orgs. p_userOrganizations p = Some orgs \<longrightarrow> organizationId l \<notin> set orgs))
      \<and> (p_include p = None \<longrightarrow>
           0 \<le> skip_of (default_to 1 (p_page p)) (default_to 8 (p_perPage p))
           \<and> order_by (default_to ''createdAt'' (p_orderBy p)) (p_orderDirection p) \<noteq> None)"
  then have f: "find (location_where (p_id p) (p_organizationId p) (p_userOrganizations p))
          (location_tbl d) = None"
    by (intro find_absent) (rule conjunct1)
  from a have v: "p_include p = None \<longrightarrow>
           0 \<le> skip_of (default_to 1 (p_page p)) (default_to 8 (p_perPage p))
           \<and> order_by (default_to ''createdAt'' (p_orderBy p)) (p_orderDirection p) \<noteq> None"
    by (rule conjunct2)
  show "getLocation order_by g d p =
        Inl (ShelfError (Prisma RecordNotFound) (Some ''Location not found'') getLocation_message
               [(''id'', JStr (p_id p)), (''organizationId'', JStr (p_organizationId p))]
               label None (Some False))"
    by (rule getLocation_absent_valid [where order_by = order_by, OF f v])
next
  assume b: "location_ids_unique d \<and> l \<in> set (location_tbl d) \<and> loc_id l = p_id p
        \<and> organizationId l \<noteq> p_organizationId p
        \<and> p_userOrganizations p = Some orgs \<and> organizationId l \<in> set orgs"
  then have b': "location_ids_unique d" "l \<in> set (location_tbl d)" "loc_id l = p_id p"
    "organizationId l \<noteq> p_organizationId p" "p_userOrganizations p = Some orgs"
    "organizationId l \<in> set orgs"
    by simp_all
  from getLocation_other_organization [OF b', of order_by g]
  show "\<exists>e. getLocation order_by g d p = Inl e
          \<and> e_title e = Some ''Location not found'' \<and> e_message e = getLocation_message
          \<and> e_status e = None"
    by blast
  assume v: "p_include p = None \<longrightarrow>
             0 \<le> skip_of (default_to 1 (p_page p)) (default_to 8 (p_perPage p))
             \<and> order_by (default_to ''createdAt'' (p_orderBy p)) (p_orderDirection p) \<noteq> None"
  show "getLocation order_by g d p =
             Inl (ShelfError
                    (Shelf (ShelfError NoCause (Some ''Location not found.'') []
                       [(''model'', JStr ''location''),
                        (''organization'', JStr (organizationId l)),
                        (''redirectTo'',
                           (case p_request p of None \<Rightarrow> JUndefined | Some r \<Rightarrow> JStr (g r)))]
                       label (Some 404) (Some False)))
                    (Some ''Location not found'') getLocation_message
                    [(''id'', JStr (p_id p)), (''organizationId'', JStr (p_organizationId p)),
                     (''model'', JStr ''location''),
                     (''organization'', JStr (organizationId l)),
                     (''redirectTo'',
                        (case p_request p of None \<Rightarrow> JUndefined | Some r \<Rightarrow> JStr (g r)))]
                    label None (Some False))"
    by (rule getLocation_other_organization_valid [where order_by = order_by, OF b' v])
qed

theorem getLocation_not_found_witness:
  "getLocation table_order sample_redirect empty_db (sample_params ''l4'' ''o1'') =
     getLocation table_order sample_redirect sample_db (sample_params ''l4'' ''o1'')
   \<and> getLocation table_order sample_redirect sample_db (sample_params ''l4'' ''o1'') =
       Inl (ShelfError (Prisma RecordNotFound) (Some ''Location not found'') getLocation_message
              [(''id'', JStr ''l4''), (''organizationId'', JStr ''o1'')] label None (Some False))
   \<and> location_ids_unique sample_db
   \<and> sample_loc ''l4'' ''Shelf A'' ''o2'' (Some ''i4'') 4 \<in> set (location_tbl sample_db)
   \<and> getLocation table_order sample_redirect sample_db
        ((sample_params ''l4'' ''o1'')\<lparr>p_userOrganizations := Some [''o1'', ''o2'']\<rparr>) =
       Inl (ShelfError
              (Shelf (ShelfError NoCause (Some ''Location not found.'') []
                 [(''model'', JStr ''location''), (''organization'', JStr ''o2''),
                  (''redirectTo'', JUndefined)] label (Some 404) (Some False)))
              (Some ''Location not found'') getLocation_message
              [(''id'', JStr ''l4''), (''organizationId'', JStr ''o1''),
               (''model'', JStr ''location''), (''organization'', JStr ''o2''),
               (''redirectTo'', JUndefined)] label None (Some False))"
proof -
  let ?l = "sample_loc ''l4'' ''Shelf A'' ''o2'' (Some ''i4'') 4"
  let ?q = "sample_params ''l4'' ''o1''"
  let ?p = "(sample_params ''l4'' ''o1'')\<lparr>p_userOrganizations := Some [''o1'', ''o2'']\<rparr>"
  have h1: "\<forall>l \<in> set (location_tbl empty_db). loc_id l = p_id ?q \<longrightarrow>
        organizationId l \<noteq> p_organizationId ?q \<and>
        (\<forall>orgs. p_userOrganizations ?q = Some orgs \<longrightarrow> organizationId l \<notin> set orgs)"
    by (simp add: empty_db_def)
  have h2: "\<forall>l \<in> set (location_tbl sample_db). loc_id l = p_id ?q \<longrightarrow>
        organizationId l \<noteq> p_organizationId ?q \<and>
        (\<forall>orgs. p_userOrganizations ?q = Some orgs \<longrightarrow> organizationId l \<notin> set orgs)"
    by (simp add: sample_defs)
  have v: "p_include ?q = None \<longrightarrow>
           0 \<le> skip_of (default_to 1 (p_page ?q)) (default_to 8 (p_perPage ?q))
           \<and> table_order (default_to ''createdAt'' (p_orderBy ?q)) (p_orderDirection ?q) \<noteq> None"
    by (simp add: sample_defs skip_of_def default_to_def)
  have v': "p_include ?p = None \<longrightarrow>
           0 \<le> skip_of (default_to 1 (p_page ?p)) (default_to 8 (p_perPage ?p))
           \<and> table_order (default_to ''createdAt'' (p_orderBy ?p)) (p_orderDirection ?p) \<noteq> None"
    by (simp add: sample_defs skip_of_def default_to_def)
  have h3: "location_ids_unique sample_db \<and> ?l \<in> set (location_tbl sample_db)
     \<and> loc_id ?l = p_id ?p \<and> organizationId ?l \<noteq> p_organizationId ?p
     \<and> p_userOrganizations ?p = Some [''o1'', ''o2''] \<and> organizationId ?l \<in> set [''o1'', ''o2'']"
    using sample_db_unique by (simp add: sample_defs)
  have g1: "getLocation table_order sample_redirect empty_db ?q =
     getLocation table_order sample_redirect sample_db ?q"
    using getLocation_not_found [of empty_db ?q sample_db table_order sample_redirect,
        THEN conjunct1, THEN mp, OF conjI [OF h1 h2]]
    by (rule conjunct1)
  from getLocation_not_found [of sample_db ?q _ table_order sample_redirect,
      THEN conjunct2, THEN conjunct1, THEN mp, OF conjI [OF h2 v]]
  have "getLocation table_order sample_redirect sample_db ?q =
        Inl (ShelfError (Prisma RecordNotFound) (Some ''Location not found'') getLocation_message
               [(''id'', JStr (p_id ?q)), (''organizationId'', JStr (p_organizationId ?q))]
               label None (Some False))"
    .
  then have g2: "getLocation table_order sample_redirect sample_db ?q =
       Inl (ShelfError (Prisma RecordNotFound) (Some ''Location not found'') getLocation_message
              [(''id'', JStr ''l4''), (''organizationId'', JStr ''o1'')] label None (Some False))"
    by (simp add: sample_params_def)
  from getLocation_not_found [of _ ?p sample_db table_order sample_redirect ?l
      "[''o1'', ''o2'']", THEN conjunct2, THEN conjunct2, THEN mp, OF h3,
      THEN conjunct2, THEN mp, OF v']
  have "getLocation table_order sample_redirect sample_db ?p =
             Inl (ShelfError
                    (Shelf (ShelfError NoCause (Some ''Location not found.'') []
                       [(''model'', JStr ''location''),
                        (''organization'', JStr (organizationId ?l)),
                        (''redirectTo'',
                           (case p_request ?p of None \<Rightarrow> JUndefined
                            | Some r \<Rightarrow> JStr (sample_redirect r)))]
                       label (Some 404) (Some False)))
                    (Some ''Location not found'') getLocation_message
                    [(''id'', JStr (p_id ?p)), (''organizationId'', JStr (p_organizationId ?p)),
                     (''model'', JStr ''location''),
                     (''organization'', JStr (organizationId ?l)),
                     (''redirectTo'',
                        (case p_request ?p of None \<Rightarrow> JUndefined
                         | Some r \<Rightarrow> JStr (sample_redirect r)))]
                    label None (Some False))"
    .
  then have g3: "getLocation table_order sample_redirect sample_db ?p =
       Inl (ShelfError
              (Shelf (ShelfError NoCause (Some ''Location not found.'') []
                 [(''model'', JStr ''location''), (''organization'', JStr ''o2''),
                  (''redirectTo'', JUndefined)] label (Some 404) (Some False)))
              (Some ''Location not found'') getLocation_message
              [(''id'', JStr ''l4''), (''organizationId'', JStr ''o1''),
               (''model'', JStr ''location''), (''organization'', JStr ''o2''),
               (''redirectTo'', JUndefined)] label None (Some False))"
    by (simp add: sample_params_def sample_loc_def)
  show ?thesis using g1 g2 g3 h3 by simp
qed

section \<open>Images of deleted locations\<close>

lemma deleteLocation_image_gone:
  assumes "find (\<lambda>l. loc_id l = i \<and> organizationId l = org) (location_tbl d) = Some l"
    and "imageId l = Some im" and "im \<noteq> []"
  shows "im \<notin> image_id ` set (image_tbl (snd (deleteLocation d i org)))"
  using assms
  by (auto simp: deleteLocation_def location_delete_def image_delete_def truthy_def Let_def)

lemma deleteLocation_location_gone:
  "\<forall>l' \<in> set (location_tbl (snd (deleteLocation d i org))).
      \<not> (loc_id l' = i \<and> organizationId l' = org)"
  by (auto simp: deleteLocation_def location_delete_def image_delete_def Let_def find_None_iff
      split: option.splits)

lemma image_deleteMany_gone:
  "im \<in> set ims \<Longrightarrow> im \<notin> image_id ` set (image_tbl (image_deleteMany ims d))"
  by (auto simp: image_deleteMany_def)

lemma bulk_image_gone:
  assumes "l \<in> set (location_tbl d)" and "bulk_where K ids org l"
    and "imageId l = Some im" and "im \<noteq> []"
  shows "im \<notin> image_id ` set (image_tbl (snd (bulkDeleteLocations K d ids org)))"
proof -
  from assms have "im \<in> set (map (\<lambda>l. the (imageId l))
           (filter (\<lambda>l. truthy (imageId l)) (filter (bulk_where K ids org) (location_tbl d))))"
    by (force simp: truthy_def)
  then show ?thesis
    unfolding bulkDeleteLocations_eq snd_conv by (rule image_deleteMany_gone)
qed

lemma bulk_location_gone:
  assumes "l \<in> set (location_tbl d)" and "bulk_where K ids org l"
  shows "l \<notin> set (location_tbl (snd (bulkDeleteLocations K d ids org)))"
  using assms
  by (auto simp: bulkDeleteLocations_eq image_deleteMany_def location_deleteMany_def)

lemma generated_nonempty:
  assumes "image_ids_generated d" and "l \<in> set (location_tbl d)" and "imageId l = Some im"
  shows "im \<noteq> []"
  using assms by (auto simp: image_ids_generated_def)

text \<open>
  Claim C9. Deleting locations leaves no image row behind: whenever the location that
  \<^verbatim>\<open>deleteLocation\<close> deletes has a non-null \<^verbatim>\<open>imageId\<close>, neither the location nor the image
  row with that id is in the database afterwards; and \<^verbatim>\<open>bulkDeleteLocations\<close> deletes, in
  the one transaction that deletes the locations (which commits), the image row of every
  deleted location that has a non-null \<^verbatim>\<open>imageId\<close>. The table is one of generated ids, where
  no \<^verbatim>\<open>imageId\<close> is the empty string.
\<close>

theorem delete_removes_image:
  "(image_ids_generated d
      \<and> find (\<lambda>l. loc_id l = i \<and> organizationId l = org) (location_tbl d) = Some l
      \<and> imageId l = Some im \<longrightarrow>
        im \<notin> image_id ` set (image_tbl (snd (deleteLocation d i org)))
        \<and> l \<notin> set (location_tbl (snd (deleteLocation d i org))))
   \<and> (image_ids_generated d \<and> l' \<in> set (location_tbl d) \<and> bulk_where K ids org' l'
      \<and> imageId l' = Some im' \<longrightarrow>
        transaction
          (bulkDelete_tx (filter (bulk_where K ids org') (location_tbl d))) d =
          (Inr (), snd (bulkDeleteLocations K d ids org'))
        \<and> im' \<notin> image_id ` set (image_tbl (snd (bulkDeleteLocations K d ids org')))
        \<and> l' \<notin> set (location_tbl (snd (bulkDeleteLocations K d ids org'))))"
proof (intro conjI impI)
  assume a: "image_ids_generated d
      \<and> find (\<lambda>l. loc_id l = i \<and> organizationId l = org) (location_tbl d) = Some l
      \<and> imageId l = Some im"
  then have f: "find (\<lambda>l. loc_id l = i \<and> organizationId l = org) (location_tbl d) = Some l"
    and im: "imageId l = Some im" and g: "image_ids_generated d"
    by simp_all
  from f have m: "l \<in> set (location_tbl d)" and k: "loc_id l = i \<and> organizationId l = org"
    by (auto simp: find_Some_iff)
  from g m im have ne: "im \<noteq> []" by (rule generated_nonempty)
  show "im \<notin> image_id ` set (image_tbl (snd (deleteLocation d i org)))"
    by (rule deleteLocation_image_gone [OF f im ne])
  from k show "l \<notin> set (location_tbl (snd (deleteLocation d i org)))"
    using deleteLocation_location_gone [of d i org] by blast
next
  assume b: "image_ids_generated d \<and> l' \<in> set (location_tbl d) \<and> bulk_where K ids org' l'
      \<and> imageId l' = Some im'"
  then have g: "image_ids_generated d" and m: "l' \<in> set (location_tbl d)"
    and w: "bulk_where K ids org' l'" and im: "imageId l' = Some im'"
    by simp_all
  from g m im have ne: "im' \<noteq> []" by (rule generated_nonempty)
  show "transaction (bulkDelete_tx (filter (bulk_where K ids org') (location_tbl d))) d =
          (Inr (), snd (bulkDeleteLocations K d ids org'))"
    by (simp add: transaction_def bulkDelete_tx_eq bulkDeleteLocations_eq)
  show "im' \<notin> image_id ` set (image_tbl (snd (bulkDeleteLocations K d ids org')))"
    by (rule bulk_image_gone [OF m w im ne])
  show "l' \<notin> set (location_tbl (snd (bulkDeleteLocations K d ids org')))"
    by (rule bulk_location_gone [OF m w])
qed

theorem delete_removes_image_witness:
  "image_ids_generated sample_db
   \<and> find (\<lambda>l. loc_id l = ''l1'' \<and> organizationId l = ''o1'') (location_tbl sample_db) =
      Some (sample_loc ''l1'' ''Shelf A'' ''o1'' (Some ''i1'') 1)
   \<and> ''i1'' \<in> image_id ` set (image_tbl sample_db)
   \<and> ''i1'' \<notin> image_id ` set (image_tbl (snd (deleteLocation sample_db ''l1'' ''o1'')))
   \<and> sample_loc ''l3'' ''Attic'' ''o1'' (Some ''i3'') 3 \<in> set (location_tbl sample_db)
   \<and> bulk_where ''all-selected'' [''l3''] ''o1'' (sample_loc ''l3'' ''Attic'' ''o1'' (Some ''i3'') 3)
   \<and> ''i3'' \<in> image_id ` set (image_tbl sample_db)
   \<and> ''i3'' \<notin> image_id ` set (image_tbl (snd (bulkDeleteLocations ''all-selected'' sample_db [''l3''] ''o1'')))"
proof -
  have h0: "image_ids_generated sample_db"
    by (simp add: image_ids_generated_def sample_db_def sample_loc_def)
  have h1: "find (\<lambda>l. loc_id l = ''l1'' \<and> organizationId l = ''o1'') (location_tbl sample_db) =
      Some (sample_loc ''l1'' ''Shelf A'' ''o1'' (Some ''i1'') 1)"
    by (simp add: sample_db_def sample_loc_def)
  have h2: "imageId (sample_loc ''l1'' ''Shelf A'' ''o1'' (Some ''i1'') 1) = Some ''i1''"
    by (simp add: sample_loc_def)
  have h3: "sample_loc ''l3'' ''Attic'' ''o1'' (Some ''i3'') 3 \<in> set (location_tbl sample_db)"
    by (simp add: sample_db_def)
  have h4: "bulk_where ''all-selected'' [''l3''] ''o1'' (sample_loc ''l3'' ''Attic'' ''o1'' (Some ''i3'') 3)"
    by (simp add: bulk_where_def sample_loc_def)
  have h5: "imageId (sample_loc ''l3'' ''Attic'' ''o1'' (Some ''i3'') 3) = Some ''i3''"
    by (simp add: sample_loc_def)
  have h6: "''i1'' \<in> image_id ` set (image_tbl sample_db)
     \<and> ''i3'' \<in> image_id ` set (image_tbl sample_db)"
    by (simp add: sample_db_def)
  show ?thesis
    using h0 h1 h2 h3 h4 h5 h6
      delete_removes_image [of sample_db "''l1''" "''o1''"
        "sample_loc ''l1'' ''Shelf A'' ''o1'' (Some ''i1'') 1" "''i1''"
        "sample_loc ''l3'' ''Attic'' ''o1'' (Some ''i3'') 3" "''all-selected''" "[''l3'']" "''o1''"
        "''i3''"]
    by simp
qed

section \<open>Routing by intent\<close>

lemma parse_intent_delete: "fd ''intent'' = Some (FString ''delete'') \<Longrightarrow> parse_intent fd = Some IntentDelete"
  by (simp add: parse_intent_def)

lemma parse_intent_toggle: "fd ''intent'' = Some (FString ''toggle'') \<Longrightarrow> parse_intent fd = Some IntentToggle"
  by (simp add: parse_intent_def)

lemma parse_intent_None:
  "parse_intent fd = None \<longleftrightarrow>
     (\<forall>s. fd ''intent'' = Some (FString s) \<longrightarrow> s \<noteq> ''delete'' \<and> s \<noteq> ''toggle'')"
  by (auto simp: parse_intent_def split: option.splits form_value.splits)

lemma parse_intent_Some:
  "parse_intent fd = Some IntentDelete \<longleftrightarrow> fd ''intent'' = Some (FString ''delete'')"
  "parse_intent fd = Some IntentToggle \<longleftrightarrow> fd ''intent'' = Some (FString ''toggle'')"
  by (auto simp: parse_intent_def split: option.splits form_value.splits if_splits)

lemma action_delete:
  assumes "params ''assetId'' = Some i" and "fd ''intent'' = Some (FString ''delete'')"
    and "requirePermission env uid PermissionDelete = Inr org"
    and "parse_mainImageUrl fd = Some url" and "deleteAsset env org i = None"
    and "truthy url \<longrightarrow> deleteAssetImage env (the url) ''assets'' = None"
  shows "fst (action env uid params fd) = Returned (Redirect ''/assets'')"
    and "AssetDeleted org i \<in> set (snd (action env uid params fd))"
    and "BookingAvailabilityUpdated a b \<notin> set (snd (action env uid params fd))"
  using assms
  by (simp_all add: action_def action_try_def handle_delete_def intent2ActionMap_def
      parse_intent_delete)

lemma action_toggle:
  assumes "params ''assetId'' = Some i" and "fd ''intent'' = Some (FString ''toggle'')"
    and "requirePermission env uid PermissionUpdate = Inr org"
    and "AvailabilityForBookingFormSchema fd = Some v"
    and "updateAssetBookingAvailability env i v = None"
  shows "fst (action env uid params fd) = Returned (Json DataEnvelope 200)"
    and "BookingAvailabilityUpdated i v \<in> set (snd (action env uid params fd))"
    and "AssetDeleted a b \<notin> set (snd (action env uid params fd))"
  using assms
  by (simp_all add: action_def action_try_def handle_toggle_def intent2ActionMap_def
      parse_intent_toggle)

lemma action_other_intent:
  assumes "params ''assetId'' = Some i" and "parse_intent fd = None"
  shows "action env uid params fd =
     (Returned (Json (ErrorEnvelope
                  (makeShelfError env (data_invalid env) [(''userId'', JStr uid), (''id'', JStr i)]))
        (status_of env
           (makeShelfError env (data_invalid env) [(''userId'', JStr uid), (''id'', JStr i)]))),
      [])"
  using assms by (simp add: action_def action_try_def Let_def)

lemma handle_delete_cases:
  "(\<exists>effs. handle_delete env org i fd = (Inr (Redirect ''/assets''), effs))
   \<or> (\<exists>c effs. handle_delete env org i fd = (Inl c, effs))"
  by (auto simp: handle_delete_def split: option.splits)

lemma handle_toggle_cases:
  "(\<exists>effs. handle_toggle env i fd = (Inr (Json DataEnvelope 200), effs))
   \<or> (\<exists>c effs. handle_toggle env i fd = (Inl c, effs))"
  by (auto simp: handle_toggle_def split: option.splits)

lemma action_try_cases:
  "(parse_intent fd = Some IntentDelete
      \<and> (\<exists>effs. action_try env uid i fd = (Inr (Redirect ''/assets''), effs)))
   \<or> (parse_intent fd = Some IntentToggle
      \<and> (\<exists>effs. action_try env uid i fd = (Inr (Json DataEnvelope 200), effs)))
   \<or> (\<exists>c effs. action_try env uid i fd = (Inl c, effs))"
proof (cases "parse_intent fd")
  case None
  then show ?thesis by (simp add: action_try_def)
next
  case (Some it)
  show ?thesis
  proof (cases "requirePermission env uid (intent2ActionMap it)")
    case (Inl c)
    with Some show ?thesis by (simp add: action_try_def)
  next
    case (Inr org)
    show ?thesis
    proof (cases it)
      case IntentDelete
      with Some Inr handle_delete_cases [of env org i fd] show ?thesis
        by (auto simp: action_try_def)
    next
      case IntentToggle
      with Some Inr handle_toggle_cases [of env i fd] show ?thesis
        by (auto simp: action_try_def)
    qed
  qed
qed

lemma action_cases:
  assumes "params ''assetId'' = Some i"
  shows "(fd ''intent'' = Some (FString ''delete'')
      \<and> (\<exists>effs. action env uid params fd = (Returned (Redirect ''/assets''), effs)))
   \<or> (fd ''intent'' = Some (FString ''toggle'')
      \<and> (\<exists>effs. action env uid params fd = (Returned (Json DataEnvelope 200), effs)))
   \<or> (\<exists>c effs. action env uid params fd =
         (Returned (Json (ErrorEnvelope
                      (makeShelfError env c [(''userId'', JStr uid), (''id'', JStr i)]))
            (status_of env (makeShelfError env c [(''userId'', JStr uid), (''id'', JStr i)]))),
          effs))"
  using assms action_try_cases [of fd env uid i]
  by (auto simp: action_def Let_def parse_intent_Some)

text \<open>
  Claim C8. For every POST to the action of the asset page (the route gives \<^verbatim>\<open>assetId\<close>),
  the field \<^verbatim>\<open>intent\<close> chooses one handler. With the intent "delete", the permission to
  delete and no helper throwing, the asset is deleted, no booking availability is updated, and
  the response is the redirect to \<^verbatim>\<open>/assets\<close>. With the intent "toggle", the permission to
  update and no helper throwing, the booking availability is updated, no asset is deleted, and
  the response is the JSON data envelope. With any other intent, or none, nothing is done and
  the response is the JSON error envelope of the reason, with the reason's status. In every
  case the response is one of these three. Whatever a handler throws is answered with the JSON
  error envelope of its reason and the reason's status: a refused permission, a field of the
  form that its schema rejects, a failure to delete the asset or its image (the asset is then
  already deleted), a failure to update the availability. The last two parts give the whole
  outcome of the two handlers when nothing throws.
\<close>

theorem action_routes_by_intent:
  "(params ''assetId'' = Some i \<and> fd ''intent'' = Some (FString ''delete'')
      \<and> requirePermission env uid PermissionDelete = Inr org
      \<and> parse_mainImageUrl fd = Some url \<and> deleteAsset env org i = None
      \<and> (truthy url \<longrightarrow> deleteAssetImage env (the url) ''assets'' = None) \<longrightarrow>
        fst (action env uid params fd) = Returned (Redirect ''/assets'')
        \<and> AssetDeleted org i \<in> set (snd (action env uid params fd))
        \<and> (\<forall>a b. BookingAvailabilityUpdated a b \<notin> set (snd (action env uid params fd))))
   \<and> (params ''assetId'' = Some i \<and> fd ''intent'' = Some (FString ''toggle'')
      \<and> requirePermission env uid PermissionUpdate = Inr org
      \<and> AvailabilityForBookingFormSchema fd = Some v
      \<and> updateAssetBookingAvailability env i v = None \<longrightarrow>
        fst (action env uid params fd) = Returned (Json DataEnvelope 200)
        \<and> BookingAvailabilityUpdated i v \<in> set (snd (action env uid params fd))
        \<and> (\<forall>a b. AssetDeleted a b \<notin> set (snd (action env uid params fd))))
   \<and> (params ''assetId'' = Some i
      \<and> (\<forall>s. fd ''intent'' = Some (FString s) \<longrightarrow> s \<noteq> ''delete'' \<and> s \<noteq> ''toggle'') \<longrightarrow>
        action env uid params fd =
          (Returned (Json (ErrorEnvelope
                       (makeShelfError env (data_invalid env)
                          [(''userId'', JStr uid), (''id'', JStr i)]))
             (status_of env
                (makeShelfError env (data_invalid env)
                   [(''userId'', JStr uid), (''id'', JStr i)]))),
           []))
   \<and> (params ''assetId'' = Some i \<longrightarrow>
        (fd ''intent'' = Some (FString ''delete'')
           \<and> (\<exists>effs. action env uid params fd = (Returned (Redirect ''/assets''), effs)))
        \<or> (fd ''intent'' = Some (FString ''toggle'')
           \<and> (\<exists>effs. action env uid params fd = (Returned (Json DataEnvelope 200), effs)))
        \<or> (\<exists>c effs. action env uid params fd =
              (Returned (Json (ErrorEnvelope
                           (makeShelfError env c [(''userId'', JStr uid), (''id'', JStr i)]))
                 (status_of env
                    (makeShelfError env c [(''userId'', JStr uid), (''id'', JStr i)]))),
               effs)))
   \<and> (params ''assetId'' = Some i \<and> parse_intent fd = Some it
      \<and> requirePermission env uid (intent2ActionMap it) = Inl c \<longrightarrow>
        action env uid params fd =
          (Returned (Json (ErrorEnvelope
                       (makeShelfError env c [(''userId'', JStr uid), (''id'', JStr i)]))
             (status_of env
                (makeShelfError env c [(''userId'', JStr uid), (''id'', JStr i)]))),
           []))
   \<and> (params ''assetId'' = Some i \<and> fd ''intent'' = Some (FString ''delete'')
      \<and> requirePermission env uid PermissionDelete = Inr org
      \<and> parse_mainImageUrl fd = None \<longrightarrow>
        action env uid params fd =
          (Returned (Json (ErrorEnvelope
                       (makeShelfError env (data_invalid env) [(''userId'', JStr uid), (''id'', JStr i)]))
             (status_of env
                (makeShelfError env (data_invalid env) [(''userId'', JStr uid), (''id'', JStr i)]))),
           []))
   \<and> (params ''assetId'' = Some i \<and> fd ''intent'' = Some (FString ''delete'')
      \<and> requirePermission env uid PermissionDelete = Inr org
      \<and> parse_mainImageUrl fd = Some url \<and> deleteAsset env org i = Some c \<longrightarrow>
        action env uid params fd =
          (Returned (Json (ErrorEnvelope
                       (makeShelfError env c [(''userId'', JStr uid), (''id'', JStr i)]))
             (status_of env
                (makeShelfError env c [(''userId'', JStr uid), (''id'', JStr i)]))),
           []))
   \<and> (params ''assetId'' = Some i \<and> fd ''intent'' = Some (FString ''delete'')
      \<and> requirePermission env uid PermissionDelete = Inr org
      \<and> parse_mainImageUrl fd = Some url \<and> deleteAsset env org i = None
      \<and> truthy url \<and> deleteAssetImage env (the url) ''assets'' = Some c \<longrightarrow>
        action env uid params fd =
          (Returned (Json (ErrorEnvelope
                       (makeShelfError env c [(''userId'', JStr uid), (''id'', JStr i)]))
             (status_of env
                (makeShelfError env c [(''userId'', JStr uid), (''id'', JStr i)]))),
           [AssetDeleted org i]))
   \<and> (params ''assetId'' = Some i \<and> fd ''intent'' = Some (FString ''toggle'')
      \<and> requirePermission env uid PermissionUpdate = Inr org
      \<and> AvailabilityForBookingFormSchema fd = None \<longrightarrow>
        action env uid params fd =
          (Returned (Json (ErrorEnvelope
                       (makeShelfError env (data_invalid env) [(''userId'', JStr uid), (''id'', JStr i)]))
             (status_of env
                (makeShelfError env (data_invalid env) [(''userId'', JStr uid), (''id'', JStr i)]))),
           []))
   \<and> (params ''assetId'' = Some i \<and> fd ''intent'' = Some (FString ''toggle'')
      \<and> requirePermission env uid PermissionUpdate = Inr org
      \<and> AvailabilityForBookingFormSchema fd = Some v
      \<and> updateAssetBookingAvailability env i v = Some c \<longrightarrow>
        action env uid params fd =
          (Returned (Json (ErrorEnvelope
                       (makeShelfError env c [(''userId'', JStr uid), (''id'', JStr i)]))
             (status_of env
                (makeShelfError env c [(''userId'', JStr uid), (''id'', JStr i)]))),
           []))
   \<and> (params ''assetId'' = Some i \<and> fd ''intent'' = Some (FString ''delete'')
      \<and> requirePermission env uid PermissionDelete = Inr org
      \<and> parse_mainImageUrl fd = Some url \<and> deleteAsset env org i = None
      \<and> (truthy url \<longrightarrow> deleteAssetImage env (the url) ''assets'' = None) \<longrightarrow>
        action env uid params fd =
          (Returned (Redirect ''/assets''),
           [AssetDeleted org i]
           @ (if truthy url then [AssetImageDeleted (the url) ''assets''] else [])
           @ [NotificationSent ''Asset deleted'' ''Your asset has been deleted successfully'']))
   \<and> (params ''assetId'' = Some i \<and> fd ''intent'' = Some (FString ''toggle'')
      \<and> requirePermission env uid PermissionUpdate = Inr org
      \<and> AvailabilityForBookingFormSchema fd = Some v
      \<and> updateAssetBookingAvailability env i v = None \<longrightarrow>
        action env uid params fd =
          (Returned (Json DataEnvelope 200),
           [BookingAvailabilityUpdated i v,
            NotificationSent ''Asset availability status updated successfully''
              ''Your asset's availability for booking has been updated'']))"
proof (intro conjI impI)
  assume a: "params ''assetId'' = Some i \<and> fd ''intent'' = Some (FString ''delete'')
      \<and> requirePermission env uid PermissionDelete = Inr org
      \<and> parse_mainImageUrl fd = Some url \<and> deleteAsset env org i = None
      \<and> (truthy url \<longrightarrow> deleteAssetImage env (the url) ''assets'' = None)"
  then show "fst (action env uid params fd) = Returned (Redirect ''/assets'')"
    using action_delete(1) by blast
  from a show "AssetDeleted org i \<in> set (snd (action env uid params fd))"
    using action_delete(2) by blast
  from a show "\<forall>a b. BookingAvailabilityUpdated a b \<notin> set (snd (action env uid params fd))"
    using action_delete(3) by blast
next
  assume a: "params ''assetId'' = Some i \<and> fd ''intent'' = Some (FString ''toggle'')
      \<and> requirePermission env uid PermissionUpdate = Inr org
      \<and> AvailabilityForBookingFormSchema fd = Some v
      \<and> updateAssetBookingAvailability env i v = None"
  then show "fst (action env uid params fd) = Returned (Json DataEnvelope 200)"
    using action_toggle(1) by blast
  from a show "BookingAvailabilityUpdated i v \<in> set (snd (action env uid params fd))"
    using action_toggle(2) by blast
  from a show "\<forall>a b. AssetDeleted a b \<notin> set (snd (action env uid params fd))"
    using action_toggle(3) by blast
next
  assume "params ''assetId'' = Some i
      \<and> (\<forall>s. fd ''intent'' = Some (FString s) \<longrightarrow> s \<noteq> ''delete'' \<and> s \<noteq> ''toggle'')"
  then show "action env uid params fd =
          (Returned (Json (ErrorEnvelope
                       (makeShelfError env (data_invalid env)
                          [(''userId'', JStr uid), (''id'', JStr i)]))
             (status_of env
                (makeShelfError env (data_invalid env)
                   [(''userId'', JStr uid), (''id'', JStr i)]))),
           [])"
    using action_other_intent [of params i fd env uid] by (simp add: parse_intent_None)
next
  assume "params ''assetId'' = Some i"
  then show "(fd ''intent'' = Some (FString ''delete'')
           \<and> (\<exists>effs. action env uid params fd = (Returned (Redirect ''/assets''), effs)))
        \<or> (fd ''intent'' = Some (FString ''toggle'')
           \<and> (\<exists>effs. action env uid params fd = (Returned (Json DataEnvelope 200), effs)))
        \<or> (\<exists>c effs. action env uid params fd =
              (Returned (Json (ErrorEnvelope
                           (makeShelfError env c [(''userId'', JStr uid), (''id'', JStr i)]))
                 (status_of env
                    (makeShelfError env c [(''userId'', JStr uid), (''id'', JStr i)]))),
               effs))"
    by (rule action_cases)
next
  assume "params ''assetId'' = Some i \<and> parse_intent fd = Some it
      \<and> requirePermission env uid (intent2ActionMap it) = Inl c"
  then show "action env uid params fd =
          (Returned (Json (ErrorEnvelope
                       (makeShelfError env c [(''userId'', JStr uid), (''id'', JStr i)]))
             (status_of env
                (makeShelfError env c [(''userId'', JStr uid), (''id'', JStr i)]))),
           [])"
    by (simp add: action_def action_try_def handle_delete_def handle_toggle_def intent2ActionMap_def
      parse_intent_delete parse_intent_toggle Let_def split: intent.splits)
next
  assume "params ''assetId'' = Some i \<and> fd ''intent'' = Some (FString ''delete'')
      \<and> requirePermission env uid PermissionDelete = Inr org
      \<and> parse_mainImageUrl fd = None"
  then show "action env uid params fd =
          (Returned (Json (ErrorEnvelope
                       (makeShelfError env (data_invalid env) [(''userId'', JStr uid), (''id'', JStr i)]))
             (status_of env
                (makeShelfError env (data_invalid env) [(''userId'', JStr uid), (''id'', JStr i)]))),
           [])"
    by (simp add: action_def action_try_def handle_delete_def handle_toggle_def intent2ActionMap_def
      parse_intent_delete parse_intent_toggle Let_def)
next
  assume "params ''assetId'' = Some i \<and> fd ''intent'' = Some (FString ''delete'')
      \<and> requirePermission env uid PermissionDelete = Inr org
      \<and> parse_mainImageUrl fd = Some url \<and> deleteAsset env org i = Some c"
  then show "action env uid params fd =
          (Returned (Json (ErrorEnvelope
                       (makeShelfError env c [(''userId'', JStr uid), (''id'', JStr i)]))
             (status_of env
                (makeShelfError env c [(''userId'', JStr uid), (''id'', JStr i)]))),
           [])"
    by (simp add: action_def action_try_def handle_delete_def handle_toggle_def intent2ActionMap_def
      parse_intent_delete parse_intent_toggle Let_def)
next
  assume "params ''assetId'' = Some i \<and> fd ''intent'' = Some (FString ''delete'')
      \<and> requirePermission env uid PermissionDelete = Inr org
      \<and> parse_mainImageUrl fd = Some url \<and> deleteAsset env org i = None
      \<and> truthy url \<and> deleteAssetImage env (the url) ''assets'' = Some c"
  then show "action env uid params fd =
          (Returned (Json (ErrorEnvelope
                       (makeShelfError env c [(''userId'', JStr uid), (''id'', JStr i)]))
             (status_of env
                (makeShelfError env c [(''userId'', JStr uid), (''id'', JStr i)]))),
           [AssetDeleted org i])"
    by (simp add: action_def action_try_def handle_delete_def handle_toggle_def intent2ActionMap_def
      parse_intent_delete parse_intent_toggle Let_def)
next
  assume "params ''assetId'' = Some i \<and> fd ''intent'' = Some (FString ''toggle'')
      \<and> requirePermission env uid PermissionUpdate = Inr org
      \<and> AvailabilityForBookingFormSchema fd = None"
  then show "action env uid params fd =
          (Returned (Json (ErrorEnvelope
                       (makeShelfError env (data_invalid env) [(''userId'', JStr uid), (''id'', JStr i)]))
             (status_of env
                (makeShelfError env (data_invalid env) [(''userId'', JStr uid), (''id'', JStr i)]))),
           [])"
    by (simp add: action_def action_try_def handle_delete_def handle_toggle_def intent2ActionMap_def
      parse_intent_delete parse_intent_toggle Let_def)
next
  assume "params ''assetId'' = Some i \<and> fd ''intent'' = Some (FString ''toggle'')
      \<and> requirePermission env uid PermissionUpdate = Inr org
      \<and> AvailabilityForBookingFormSchema fd = Some v
      \<and> updateAssetBookingAvailability env i v = Some c"
  then show "action env uid params fd =
          (Returned (Json (ErrorEnvelope
                       (makeShelfError env c [(''userId'', JStr uid), (''id'', JStr i)]))
             (status_of env
                (makeShelfError env c [(''userId'', JStr uid), (''id'', JStr i)]))),
           [])"
    by (simp add: action_def action_try_def handle_delete_def handle_toggle_def intent2ActionMap_def
      parse_intent_delete parse_intent_toggle Let_def)
next
  assume "params ''assetId'' = Some i \<and> fd ''intent'' = Some (FString ''delete'')
      \<and> requirePermission env uid PermissionDelete = Inr org
      \<and> parse_mainImageUrl fd = Some url \<and> deleteAsset env org i = None
      \<and> (truthy url \<longrightarrow> deleteAssetImage env (the url) ''assets'' = None)"
  then show "action env uid params fd =
          (Returned (Redirect ''/assets''),
           [AssetDeleted org i]
           @ (if truthy url then [AssetImageDeleted (the url) ''assets''] else [])
           @ [NotificationSent ''Asset deleted'' ''Your asset has been deleted successfully''])"
    by (simp add: action_def action_try_def handle_delete_def handle_toggle_def intent2ActionMap_def
      parse_intent_delete parse_intent_toggle Let_def)
next
  assume "params ''assetId'' = Some i \<and> fd ''intent'' = Some (FString ''toggle'')
      \<and> requirePermission env uid PermissionUpdate = Inr org
      \<and> AvailabilityForBookingFormSchema fd = Some v
      \<and> updateAssetBookingAvailability env i v = None"
  then show "action env uid params fd =
          (Returned (Json DataEnvelope 200),
           [BookingAvailabilityUpdated i v,
            NotificationSent ''Asset availability status updated successfully''
              ''Your asset's availability for booking has been updated''])"
    by (simp add: action_def action_try_def handle_delete_def handle_toggle_def intent2ActionMap_def
      parse_intent_delete parse_intent_toggle Let_def)
qed


theorem action_routes_by_intent_witness:
  "fst (action sample_env ''u1'' [''assetId'' \<mapsto> ''a1''] [''intent'' \<mapsto> FString ''delete'']) =
     Returned (Redirect ''/assets'')
   \<and> AssetDeleted ''o1'' ''a1'' \<in>
       set (snd (action sample_env ''u1'' [''assetId'' \<mapsto> ''a1''] [''intent'' \<mapsto> FString ''delete'']))
   \<and> fst (action sample_env ''u1'' [''assetId'' \<mapsto> ''a1''] [''intent'' \<mapsto> FString ''toggle'']) =
     Returned (Json DataEnvelope 200)
   \<and> BookingAvailabilityUpdated ''a1'' False \<in>
       set (snd (action sample_env ''u1'' [''assetId'' \<mapsto> ''a1''] [''intent'' \<mapsto> FString ''toggle'']))
   \<and> action sample_env ''u1'' [''assetId'' \<mapsto> ''a1'']
        [''intent'' \<mapsto> FString ''bulk-update-location''] =
     (Returned (Json (ErrorEnvelope 400) 400), [])
   \<and> requirePermission sample_env_denied ''u1'' PermissionDelete = Inl 403
   \<and> action sample_env_denied ''u1'' [''assetId'' \<mapsto> ''a1''] [''intent'' \<mapsto> FString ''delete''] =
     (Returned (Json (ErrorEnvelope 403) 403), [])
   \<and> deleteAsset sample_env_failing ''o1'' ''a1'' = Some 500
   \<and> action sample_env_failing ''u1'' [''assetId'' \<mapsto> ''a1''] [''intent'' \<mapsto> FString ''delete''] =
     (Returned (Json (ErrorEnvelope 500) 500), [])"
proof -
  let ?params = "[''assetId'' \<mapsto> ''a1'']"
  let ?del = "[''intent'' \<mapsto> FString ''delete'']"
  let ?tog = "[''intent'' \<mapsto> FString ''toggle'']"
  let ?oth = "[''intent'' \<mapsto> FString ''bulk-update-location'']"
  have h1: "?params ''assetId'' = Some ''a1'' \<and> ?del ''intent'' = Some (FString ''delete'')
      \<and> requirePermission sample_env ''u1'' PermissionDelete = Inr ''o1''
      \<and> parse_mainImageUrl ?del = Some None \<and> deleteAsset sample_env ''o1'' ''a1'' = None
      \<and> (truthy None \<longrightarrow> deleteAssetImage sample_env (the None) ''assets'' = None)"
    by (simp add: sample_env_def parse_mainImageUrl_def)
  have h2: "?params ''assetId'' = Some ''a1'' \<and> ?tog ''intent'' = Some (FString ''toggle'')
      \<and> requirePermission sample_env ''u1'' PermissionUpdate = Inr ''o1''
      \<and> AvailabilityForBookingFormSchema ?tog = Some False
      \<and> updateAssetBookingAvailability sample_env ''a1'' False = None"
    by (simp add: sample_env_def AvailabilityForBookingFormSchema_def)
  have h3: "?params ''assetId'' = Some ''a1''
      \<and> (\<forall>s. ?oth ''intent'' = Some (FString s) \<longrightarrow> s \<noteq> ''delete'' \<and> s \<noteq> ''toggle'')"
    by simp
  have h5: "?params ''assetId'' = Some ''a1'' \<and> parse_intent ?del = Some IntentDelete
      \<and> requirePermission sample_env_denied ''u1'' (intent2ActionMap IntentDelete) = Inl 403"
    by (simp add: sample_env_denied_def sample_env_def parse_intent_def intent2ActionMap_def)
  have h7: "?params ''assetId'' = Some ''a1'' \<and> ?del ''intent'' = Some (FString ''delete'')
      \<and> requirePermission sample_env_failing ''u1'' PermissionDelete = Inr ''o1''
      \<and> parse_mainImageUrl ?del = Some None \<and> deleteAsset sample_env_failing ''o1'' ''a1'' = Some 500"
    by (simp add: sample_env_failing_def sample_env_def parse_mainImageUrl_def)
  note t1 = action_routes_by_intent [where params = ?params and i = "''a1''" and fd = ?del
      and env = sample_env and uid = "''u1''" and org = "''o1''" and url = None, THEN conjunct1, THEN mp, OF h1]
  note t2 = action_routes_by_intent [where params = ?params and i = "''a1''" and fd = ?tog
      and env = sample_env and uid = "''u1''" and org = "''o1''" and v = False, THEN conjunct2, THEN conjunct1, THEN mp, OF h2]
  note t3 = action_routes_by_intent [where params = ?params and i = "''a1''" and fd = ?oth
      and env = sample_env and uid = "''u1''", THEN conjunct2, THEN conjunct2, THEN conjunct1, THEN mp, OF h3]
  note t5 = action_routes_by_intent [where params = ?params and i = "''a1''" and fd = ?del
      and env = sample_env_denied and uid = "''u1''" and it = IntentDelete and c = 403, THEN conjunct2, THEN conjunct2, THEN conjunct2, THEN conjunct2, THEN conjunct1, THEN mp, OF h5]
  note t7 = action_routes_by_intent [where params = ?params and i = "''a1''" and fd = ?del
      and env = sample_env_failing and uid = "''u1''" and org = "''o1''" and url = None
      and c = 500, THEN conjunct2, THEN conjunct2, THEN conjunct2, THEN conjunct2, THEN conjunct2, THEN conjunct2, THEN conjunct1, THEN mp, OF h7]
  from t1 have g1: "fst (action sample_env ''u1'' ?params ?del) = Returned (Redirect ''/assets'')
     \<and> AssetDeleted ''o1'' ''a1'' \<in> set (snd (action sample_env ''u1'' ?params ?del))"
    by simp
  from t2 have g2: "fst (action sample_env ''u1'' ?params ?tog) = Returned (Json DataEnvelope 200)
     \<and> BookingAvailabilityUpdated ''a1'' False \<in> set (snd (action sample_env ''u1'' ?params ?tog))"
    by simp
  from t3 have g3: "action sample_env ''u1'' ?params ?oth =
     (Returned (Json (ErrorEnvelope 400) 400), [])"
    by (simp add: sample_env_def)
  from t5 have g5: "action sample_env_denied ''u1'' ?params ?del =
     (Returned (Json (ErrorEnvelope 403) 403), [])"
    by (simp add: sample_env_denied_def sample_env_def)
  from t7 have g7: "action sample_env_failing ''u1'' ?params ?del =
     (Returned (Json (ErrorEnvelope 500) 500), [])"
    by (simp add: sample_env_failing_def sample_env_def)
  from h5 have k5: "requirePermission sample_env_denied ''u1'' PermissionDelete = Inl 403"
    by (simp add: intent2ActionMap_def)
  from h7 have k7: "deleteAsset sample_env_failing ''o1'' ''a1'' = Some 500"
    by simp
  show ?thesis using g1 g2 g3 g5 g7 k5 k7 by simp
qed

section \<open>Validation of a new note\<close>

lemma NewNoteSchema_Inr:
  "NewNoteSchema fd = Inr c \<longleftrightarrow> fd ''content'' = Some (FString c) \<and> 3 \<le> length c"
  by (auto simp: NewNoteSchema_def split: option.splits form_value.splits)

lemma NewNoteSchema_short:
  "fd ''content'' = Some (FString c) \<Longrightarrow> length c < 3 \<Longrightarrow>
     NewNoteSchema fd = Inl ''Content is required''"
  by (simp add: NewNoteSchema_def)

lemma submit_event_short:
  assumes "length c < 3"
  shows "submitted (note_step (SubmitEvent c) s) = submitted s"
    and "isEditing s \<Longrightarrow> shown_error (note_step (SubmitEvent c) s) = Some ''Content is required''"
  using assms by (simp_all add: zorm_submit_def form_of_def NewNoteSchema_def)

lemma submit_event_long:
  assumes "isEditing s" and "3 \<le> length c"
  shows "submitted (note_step (SubmitEvent c) s) = c # submitted s"
  using assms by (simp add: zorm_submit_def form_of_def NewNoteSchema_def)

text \<open>
  Claim C10. For every submission of the new-note form, the content must be a string of at
  least 3 characters; shorter content fails the validation with "Content is required" and no
  note is submitted. The schema and the submit event of the form do so: the content "ab" is
  rejected with that message, and a submit event with it submits nothing and shows the message.
  The editor's \<^verbatim>\<open>handleKeyDown\<close> does not: on Enter with the control key it calls
  \<^verbatim>\<open>fetcher.submit\<close> under the only condition that the content is not empty, and the same
  content "ab" is submitted without the validation that the submit event runs.
\<close>

theorem shortcut_skips_validation:
  "NewNoteSchema [''content'' \<mapsto> FString ''ab''] = Inl ''Content is required''
   \<and> note_step (SubmitEvent ''ab'') \<lparr> isEditing = True, shown_error = None, submitted = [] \<rparr> =
       \<lparr> isEditing = True, shown_error = Some ''Content is required'', submitted = [] \<rparr>
   \<and> note_step (KeyUp ''ab'' ''Enter'' False True)
         \<lparr> isEditing = True, shown_error = None, submitted = [] \<rparr> =
       \<lparr> isEditing = True, shown_error = None, submitted = [''ab''] \<rparr>"
  by (simp add: NewNoteSchema_def handleKeyDown_def zorm_submit_def form_of_def)

section \<open>Search\<close>

lemma like_percent:
  "like_match (CHR ''%'' # ps) t \<longleftrightarrow> (\<exists>pre r. t = pre @ r \<and> like_match ps r)"
proof (induction t)
  case Nil
  then show ?case by simp
next
  case (Cons c cs)
  show ?case
  proof
    assume "like_match (CHR ''%'' # ps) (c # cs)"
    then have "like_match ps (c # cs) \<or> like_match (CHR ''%'' # ps) cs" by simp
    then show "\<exists>pre r. c # cs = pre @ r \<and> like_match ps r"
    proof
      assume "like_match ps (c # cs)"
      then have "c # cs = [] @ (c # cs) \<and> like_match ps (c # cs)" by simp
      then show ?thesis by blast
    next
      assume "like_match (CHR ''%'' # ps) cs"
      with Cons.IH obtain pre r where "cs = pre @ r" "like_match ps r" by blast
      then have "c # cs = (c # pre) @ r \<and> like_match ps r" by simp
      then show ?thesis by blast
    qed
  next
    assume "\<exists>pre r. c # cs = pre @ r \<and> like_match ps r"
    then obtain pre r where e: "c # cs = pre @ r" and m: "like_match ps r" by blast
    show "like_match (CHR ''%'' # ps) (c # cs)"
    proof (cases pre)
      case Nil
      with e m have "like_match ps (c # cs)" by simp
      then show ?thesis by simp
    next
      case (Cons a pre')
      with e have "cs = pre' @ r" by simp
      with m Cons.IH have "like_match (CHR ''%'' # ps) cs" by blast
      then show ?thesis by simp
    qed
  qed
qed

lemma like_literal:
  assumes "\<forall>c \<in> set n. \<not> like_special c"
  shows "like_match (n @ ps) t \<longleftrightarrow> (\<exists>r. t = n @ r \<and> like_match ps r)"
  using assms
proof (induction n arbitrary: t)
  case Nil
  then show ?case by simp
next
  case (Cons a n)
  then have a: "a \<noteq> CHR ''%''" "a \<noteq> CHR ''_''" "a \<noteq> CHR 0x5C"
    by (simp_all add: like_special_def)
  from Cons have IH: "\<And>t. like_match (n @ ps) t \<longleftrightarrow> (\<exists>r. t = n @ r \<and> like_match ps r)"
    by simp
  show ?case
  proof (cases t)
    case Nil
    with a show ?thesis by simp
  next
    case (Cons c cs)
    with a IH [of cs] show ?thesis by auto
  qed
qed

lemma like_percent_only: "like_match [CHR ''%''] t"
  by (induction t) simp_all

lemma like_contains_literal:
  assumes "\<forall>c \<in> set n. \<not> like_special c"
  shows "like_match (CHR ''%'' # n @ [CHR ''%'']) t \<longleftrightarrow> (\<exists>pre post. t = pre @ n @ post)"
  by (simp only: like_percent like_literal [OF assms] like_percent_only) auto

lemma contains_insensitive_substring:
  assumes "lw CHR ''%'' = CHR ''%''" and "\<forall>c \<in> set s. \<not> like_special (lw c)"
  shows "contains_insensitive lw s h \<longleftrightarrow> (\<exists>pre post. map lw h = pre @ map lw s @ post)"
proof -
  from assms(2) have "\<forall>c \<in> set (map lw s). \<not> like_special c" by simp
  from like_contains_literal [OF this] assms(1) show ?thesis
    by (simp add: contains_insensitive_def ilike_def)
qed

lemma contains_underscore:
  assumes "lw CHR ''%'' = CHR ''%''" and "lw CHR ''_'' = CHR ''_''"
  shows "contains_insensitive lw [CHR ''_''] h \<longleftrightarrow> h \<noteq> []"
proof -
  have "like_match [CHR ''_'', CHR ''%''] r \<longleftrightarrow> r \<noteq> []" for r
    by (cases r) (simp_all add: like_percent_only)
  then have "like_match (CHR ''%'' # [CHR ''_'', CHR ''%'']) t \<longleftrightarrow> t \<noteq> []" for t
    unfolding like_percent by (cases t) auto
  with assms show ?thesis
    by (simp add: contains_insensitive_def ilike_def)
qed

lemma contains_percent:
  assumes "lw CHR ''%'' = CHR ''%''"
  shows "contains_insensitive lw [CHR ''%''] h"
proof -
  have "like_match [CHR ''%'', CHR ''%'', CHR ''%''] t" for t
    by (induction t) simp_all
  with assms show ?thesis
    by (simp add: contains_insensitive_def ilike_def)
qed

lemma row_location_include: "map (row_location \<circ> include_row d) ls = ls"
  by (induction ls) (simp_all add: include_row_def)

lemma locations_where_search:
  "s \<noteq> [] \<Longrightarrow> locations_where lw org (Some s) =
     (\<lambda>l. organizationId l = org \<and> ilike lw (CHR ''%'' # s @ [CHR ''%'']) (name l))"
  by (rule ext) (simp add: locations_where_def truthy_def contains_insensitive_def)

lemma assets_where_search:
  "s \<noteq> [] \<Longrightarrow> assets_where lw (Some s) = (\<lambda>a. ilike lw (CHR ''%'' # s @ [CHR ''%'']) (title a))"
  by (rule ext) (simp add: assets_where_def truthy_def contains_insensitive_def)

lemma getLocation_Inr_total:
  "getLocation order_by g d p = Inr r \<Longrightarrow>
     totalAssetsWithinLocation r = length (filter (\<lambda>a. locationId a = Some (p_id p)) (asset_tbl d))"
  by (auto simp: getLocation_def getLocation_try_def Let_def split: sum.splits if_splits)

lemma sample_collation: "collation_lower sample_db = ascii_lower"
  by (simp add: sample_db_def)

lemma sample_contains:
  "contains_insensitive ascii_lower ''SHELF'' ''Shelf A''"
  "contains_insensitive ascii_lower ''SHELF'' ''shelf b''"
  "\<not> contains_insensitive ascii_lower ''SHELF'' ''Attic''"
  "contains_insensitive ascii_lower ''DRILL'' ''Drill''"
  "contains_insensitive ascii_lower ''DRILL'' ''drill bits''"
  "\<not> contains_insensitive ascii_lower ''DRILL'' ''Saw''"
  "contains_insensitive ascii_lower ''_'' ''Shelf A''"
  "contains_insensitive ascii_lower ''_'' ''shelf b''"
  "contains_insensitive ascii_lower ''_'' ''Attic''"
  by code_simp+

lemma sample_ilike:
  "ilike ascii_lower ''%SHELF%'' ''Shelf A''"
  "ilike ascii_lower ''%SHELF%'' ''shelf b''"
  "\<not> ilike ascii_lower ''%SHELF%'' ''Attic''"
  "ilike ascii_lower ''%DRILL%'' ''Drill''"
  "ilike ascii_lower ''%DRILL%'' ''drill bits''"
  "\<not> ilike ascii_lower ''%DRILL%'' ''Saw''"
  by code_simp+

lemma sample_getLocation_search:
  "getLocation table_order sample_redirect sample_db
      ((sample_params ''l1'' ''o1'')\<lparr>p_search := Some ''DRILL''\<rparr>) =
    Inr \<lparr> location = sample_loc ''l1'' ''Shelf A'' ''o1'' (Some ''i1'') 1,
          assets = Some [sample_asset ''a1'' ''Drill'' ''l1'' 1,
                         sample_asset ''a2'' ''drill bits'' ''l1'' 2],
          totalAssetsWithinLocation = 3 \<rparr>"
  by (simp add: getLocation_def getLocation_try_def findFirstOrThrow_def location_where_def
      has_length_def default_include_def assets_where_def truthy_def paginate_def skip_of_def
      take_of_def default_to_def sample_contains sample_defs)

lemma sample_substrings:
  "sublist (map ascii_lower ''SHELF'') (map ascii_lower ''Shelf A'')"
  "\<not> sublist (map ascii_lower ''_'') (map ascii_lower ''Attic'')"
  "\<not> sublist (map ascii_lower ''_'') (map ascii_lower ''shelf b'')"
  "\<not> sublist (map ascii_lower ''_'') (map ascii_lower ''Shelf A'')"
  by code_simp+

text \<open>
  Claim C7, as stated: with a non-empty search string the result of \<^verbatim>\<open>getLocations\<close>
  contains exactly the locations of the organization whose name contains the string as a
  case-insensitive substring. Two things stand against it. The search string goes into the
  pattern of \<^verbatim>\<open>ILIKE\<close> as it is: the search string "_" returns all three locations of the
  sample organization, with \<^verbatim>\<open>totalLocations\<close> 3, and none of them has an underscore in its
  name. And the result is one page: with \<^verbatim>\<open>perPage = 1\<close> and the search string "SHELF",
  two locations of the organization match ("Shelf A" and "shelf b"), \<^verbatim>\<open>totalLocations\<close> is
  2, and the result holds one of them.
\<close>

theorem search_page_and_wildcard_counterexample:
  "getLocations sample_db ''o1'' None None (Some ''_'') =
     Inr \<lparr> locations =
             [include_row sample_db (sample_loc ''l3'' ''Attic'' ''o1'' (Some ''i3'') 3),
              include_row sample_db (sample_loc ''l2'' ''shelf b'' ''o1'' None 2),
              include_row sample_db (sample_loc ''l1'' ''Shelf A'' ''o1'' (Some ''i1'') 1)],
           totalLocations = 3 \<rparr>
   \<and> \<not> sublist (map ascii_lower ''_'') (map ascii_lower ''Attic'')
   \<and> \<not> sublist (map ascii_lower ''_'') (map ascii_lower ''shelf b'')
   \<and> \<not> sublist (map ascii_lower ''_'') (map ascii_lower ''Shelf A'')
   \<and> getLocations sample_db ''o1'' None (Some 1) (Some ''SHELF'') =
     Inr \<lparr> locations = [include_row sample_db (sample_loc ''l2'' ''shelf b'' ''o1'' None 2)],
           totalLocations = 2 \<rparr>
   \<and> sample_loc ''l1'' ''Shelf A'' ''o1'' (Some ''i1'') 1 \<in> set (location_tbl sample_db)
   \<and> organizationId (sample_loc ''l1'' ''Shelf A'' ''o1'' (Some ''i1'') 1) = ''o1''
   \<and> sublist (map ascii_lower ''SHELF'')
        (map ascii_lower (name (sample_loc ''l1'' ''Shelf A'' ''o1'' (Some ''i1'') 1)))
   \<and> sample_loc ''l1'' ''Shelf A'' ''o1'' (Some ''i1'') 1 \<noteq> sample_loc ''l2'' ''shelf b'' ''o1'' None 2"
proof -
  have a: "getLocations sample_db ''o1'' None (Some 1) (Some ''SHELF'') =
     Inr \<lparr> locations = [include_row sample_db (sample_loc ''l2'' ''shelf b'' ''o1'' None 2)],
           totalLocations = 2 \<rparr>"
    by (simp add: getLocations_def default_to_def skip_of_def take_of_def paginate_def
        locations_where_def truthy_def order_updatedAt_desc_def sample_contains
        sample_db_def sample_loc_def)
  have b: "sample_loc ''l1'' ''Shelf A'' ''o1'' (Some ''i1'') 1 \<in> set (location_tbl sample_db)
     \<and> organizationId (sample_loc ''l1'' ''Shelf A'' ''o1'' (Some ''i1'') 1) = ''o1''
     \<and> sample_loc ''l1'' ''Shelf A'' ''o1'' (Some ''i1'') 1 \<noteq>
         sample_loc ''l2'' ''shelf b'' ''o1'' None 2"
    by (simp add: sample_db_def sample_loc_def)
  have c: "name (sample_loc ''l1'' ''Shelf A'' ''o1'' (Some ''i1'') 1) = ''Shelf A''"
    by (simp add: sample_loc_def)
  have e: "getLocations sample_db ''o1'' None None (Some ''_'') =
     Inr \<lparr> locations =
             [include_row sample_db (sample_loc ''l3'' ''Attic'' ''o1'' (Some ''i3'') 3),
              include_row sample_db (sample_loc ''l2'' ''shelf b'' ''o1'' None 2),
              include_row sample_db (sample_loc ''l1'' ''Shelf A'' ''o1'' (Some ''i1'') 1)],
           totalLocations = 3 \<rparr>"
    by (simp add: getLocations_def default_to_def skip_of_def take_of_def paginate_def
        locations_where_def truthy_def order_updatedAt_desc_def sample_contains
        sample_db_def sample_loc_def)
  show ?thesis
    unfolding c using a b e sample_substrings by blast
qed

text \<open>
  Claim C7, amended: with a non-empty search string (and a \<^verbatim>\<open>skip\<close> that is not negative),
  \<^verbatim>\<open>getLocations\<close> returns the requested page of exactly the locations of the organization
  whose name matches the pattern made of a percent sign, the search string and a percent sign
  under \<^verbatim>\<open>ILIKE\<close>, most recently updated first, and \<^verbatim>\<open>totalLocations\<close> counts exactly
  those locations; every returned location is one of them, and when they all fit on the first
  page the result holds exactly them. A call of \<^verbatim>\<open>getLocation\<close> that returns, with the
  default include, carries the requested page of the location's assets whose title matches
  that pattern, while \<^verbatim>\<open>totalAssetsWithinLocation\<close> counts all assets of the location. A
  search string without percent sign, underscore and backslash matches exactly the texts that
  contain it as a substring once both are in lower case; the search string "_" matches every
  text that is not empty, and the search string "%" every text.
\<close>

theorem search_filters_the_page:
  "(s \<noteq> [] \<and> 0 \<le> skip_of (default_to 1 page) (default_to 8 perPage) \<longrightarrow>
      (\<exists>r. getLocations d org page perPage (Some s) = Inr r
         \<and> map row_location (locations r) =
             take (nat (take_of (default_to 8 perPage)))
               (drop (nat (skip_of (default_to 1 page) (default_to 8 perPage)))
                  (order_updatedAt_desc
                     (filter (\<lambda>l. organizationId l = org \<and> ilike (collation_lower d) (CHR ''%'' # s @ [CHR ''%'']) (name l))
                        (location_tbl d))))
         \<and> totalLocations r =
             length (filter (\<lambda>l. organizationId l = org \<and> ilike (collation_lower d) (CHR ''%'' # s @ [CHR ''%'']) (name l))
                       (location_tbl d))
         \<and> set (map row_location (locations r)) \<subseteq>
             {l \<in> set (location_tbl d). organizationId l = org \<and> ilike (collation_lower d) (CHR ''%'' # s @ [CHR ''%'']) (name l)}
         \<and> (skip_of (default_to 1 page) (default_to 8 perPage) = 0
              \<and> int (totalLocations r) \<le> take_of (default_to 8 perPage) \<longrightarrow>
             set (map row_location (locations r)) =
               {l \<in> set (location_tbl d).
                  organizationId l = org \<and> ilike (collation_lower d) (CHR ''%'' # s @ [CHR ''%'']) (name l)})))
   \<and> (getLocation order_by g d p = Inr r' \<and> p_include p = None \<and> p_search p = Some s \<and> s \<noteq> []
        \<longrightarrow>
        (\<exists>ord. order_by (default_to ''createdAt'' (p_orderBy p)) (p_orderDirection p) = Some ord
              \<and> assets r' = Some (take (nat (take_of (default_to 8 (p_perPage p))))
                   (drop (nat (skip_of (default_to 1 (p_page p)) (default_to 8 (p_perPage p))))
                      (ord (filter (\<lambda>a. ilike (collation_lower d) (CHR ''%'' # s @ [CHR ''%'']) (title a))
                         (filter (\<lambda>a. locationId a = Some (loc_id (location r')))
                            (asset_tbl d)))))))
        \<and> totalAssetsWithinLocation r' =
            length (filter (\<lambda>a. locationId a = Some (p_id p)) (asset_tbl d)))
   \<and> (lw CHR ''%'' = CHR ''%'' \<and> (\<forall>c \<in> set s. \<not> like_special (lw c)) \<longrightarrow>
        (ilike lw (CHR ''%'' # s @ [CHR ''%'']) h \<longleftrightarrow>
           (\<exists>pre post. map lw h = pre @ map lw s @ post)))
   \<and> (lw CHR ''%'' = CHR ''%'' \<and> lw CHR ''_'' = CHR ''_'' \<longrightarrow>
        (ilike lw (CHR ''%'' # [CHR ''_''] @ [CHR ''%'']) h \<longleftrightarrow> h \<noteq> []))
   \<and> (lw CHR ''%'' = CHR ''%'' \<longrightarrow> ilike lw (CHR ''%'' # [CHR ''%''] @ [CHR ''%'']) h)"
proof (intro conjI impI)
  let ?P = "\<lambda>l. organizationId l = org \<and> ilike (collation_lower d) (CHR ''%'' # s @ [CHR ''%'']) (name l)"
  let ?tk = "nat (take_of (default_to 8 perPage))"
  let ?sk = "nat (skip_of (default_to 1 page) (default_to 8 perPage))"
  let ?page = "take ?tk (drop ?sk (order_updatedAt_desc (filter ?P (location_tbl d))))"
  define r where "r = \<lparr> locations = map (include_row d) ?page,
             totalLocations = length (filter ?P (location_tbl d)) \<rparr>"
  assume a: "s \<noteq> [] \<and> 0 \<le> skip_of (default_to 1 page) (default_to 8 perPage)"
  then have g: "getLocations d org page perPage (Some s) = Inr r"
    by (simp add: getLocations_Inr locations_where_search r_def)
  have m: "map row_location (locations r) = ?page"
    by (simp add: row_location_include r_def)
  have t: "totalLocations r = length (filter ?P (location_tbl d))"
    by (simp add: r_def)
  have "set ?page \<subseteq> set (order_updatedAt_desc (filter ?P (location_tbl d)))"
    by (meson set_take_subset set_drop_subset subset_trans)
  then have "set ?page \<subseteq> {l \<in> set (location_tbl d). ?P l}"
    by (auto simp: order_updatedAt_desc_def)
  with m have sub: "set (map row_location (locations r)) \<subseteq> {l \<in> set (location_tbl d). ?P l}"
    by simp
  have all: "skip_of (default_to 1 page) (default_to 8 perPage) = 0
       \<and> int (totalLocations r) \<le> take_of (default_to 8 perPage) \<longrightarrow>
     set (map row_location (locations r)) = {l \<in> set (location_tbl d). ?P l}"
  proof
    assume b: "skip_of (default_to 1 page) (default_to 8 perPage) = 0
       \<and> int (totalLocations r) \<le> take_of (default_to 8 perPage)"
    with t have "int (length (filter ?P (location_tbl d))) \<le> take_of (default_to 8 perPage)"
      by simp
    then have "length (filter ?P (location_tbl d)) \<le> ?tk"
      by linarith
    then have "length (order_updatedAt_desc (filter ?P (location_tbl d))) \<le> ?tk"
      by (simp add: order_updatedAt_desc_def)
    with b have "?page = order_updatedAt_desc (filter ?P (location_tbl d))"
      by simp
    then have "set ?page = {l \<in> set (location_tbl d). ?P l}"
      by (auto simp: order_updatedAt_desc_def)
    with m show "set (map row_location (locations r)) = {l \<in> set (location_tbl d). ?P l}"
      by simp
  qed
  from g m t sub all
  show "\<exists>r. getLocations d org page perPage (Some s) = Inr r
         \<and> map row_location (locations r) = ?page
         \<and> totalLocations r = length (filter ?P (location_tbl d))
         \<and> set (map row_location (locations r)) \<subseteq> {l \<in> set (location_tbl d). ?P l}
         \<and> (skip_of (default_to 1 page) (default_to 8 perPage) = 0
              \<and> int (totalLocations r) \<le> take_of (default_to 8 perPage) \<longrightarrow>
             set (map row_location (locations r)) = {l \<in> set (location_tbl d). ?P l})"
    by blast
next
  assume a: "getLocation order_by g d p = Inr r' \<and> p_include p = None \<and> p_search p = Some s \<and> s \<noteq> []"
  then show "\<exists>ord. order_by (default_to ''createdAt'' (p_orderBy p)) (p_orderDirection p) = Some ord
              \<and> assets r' = Some (take (nat (take_of (default_to 8 (p_perPage p))))
                   (drop (nat (skip_of (default_to 1 (p_page p)) (default_to 8 (p_perPage p))))
                      (ord (filter (\<lambda>a. ilike (collation_lower d) (CHR ''%'' # s @ [CHR ''%'']) (title a))
                         (filter (\<lambda>a. locationId a = Some (loc_id (location r')))
                            (asset_tbl d))))))"
    using getLocation_Inr_assets [of order_by g d p r'] by (auto simp: assets_where_search)
  from a show "totalAssetsWithinLocation r' =
            length (filter (\<lambda>a. locationId a = Some (p_id p)) (asset_tbl d))"
    using getLocation_Inr_total by blast
next
  assume "lw CHR ''%'' = CHR ''%'' \<and> (\<forall>c \<in> set s. \<not> like_special (lw c))"
  then show "ilike lw (CHR ''%'' # s @ [CHR ''%'']) h \<longleftrightarrow>
           (\<exists>pre post. map lw h = pre @ map lw s @ post)"
    using contains_insensitive_substring [of lw s h] by (simp add: contains_insensitive_def)
next
  assume "lw CHR ''%'' = CHR ''%'' \<and> lw CHR ''_'' = CHR ''_''"
  then show "ilike lw (CHR ''%'' # [CHR ''_''] @ [CHR ''%'']) h \<longleftrightarrow> h \<noteq> []"
    using contains_underscore [of lw h] by (simp add: contains_insensitive_def)
next
  assume "lw CHR ''%'' = CHR ''%''"
  then show "ilike lw (CHR ''%'' # [CHR ''%''] @ [CHR ''%'']) h"
    using contains_percent [of lw h] by (simp add: contains_insensitive_def)
qed

theorem search_filters_the_page_witness:
  "map row_location (locations (projr (getLocations sample_db ''o1'' None None (Some ''SHELF'')))) =
       [sample_loc ''l2'' ''shelf b'' ''o1'' None 2,
        sample_loc ''l1'' ''Shelf A'' ''o1'' (Some ''i1'') 1]
   \<and> totalLocations (projr (getLocations sample_db ''o1'' None None (Some ''SHELF''))) = 2
   \<and> getLocation table_order sample_redirect sample_db
        ((sample_params ''l1'' ''o1'')\<lparr>p_search := Some ''DRILL''\<rparr>) =
      Inr \<lparr> location = sample_loc ''l1'' ''Shelf A'' ''o1'' (Some ''i1'') 1,
            assets = Some [sample_asset ''a1'' ''Drill'' ''l1'' 1,
                           sample_asset ''a2'' ''drill bits'' ''l1'' 2],
            totalAssetsWithinLocation = 3 \<rparr>
   \<and> length (filter (\<lambda>a. locationId a = Some ''l1'') (asset_tbl sample_db)) = 3
   \<and> ilike ascii_lower ''%SHELF%'' ''Shelf A''
   \<and> (\<exists>pre post. map ascii_lower ''Shelf A'' = pre @ map ascii_lower ''SHELF'' @ post)
   \<and> ilike ascii_lower ''%_%'' ''Attic''
   \<and> ilike ascii_lower ''%%%'' ''Attic''"
proof -
  have h: "''SHELF'' \<noteq> [] \<and> 0 \<le> skip_of (default_to 1 None) (default_to 8 None)"
    by (simp add: skip_of_def default_to_def)
  let ?p = "(sample_params ''l1'' ''o1'')\<lparr>p_search := Some ''DRILL''\<rparr>"
  let ?r = "\<lparr> location = sample_loc ''l1'' ''Shelf A'' ''o1'' (Some ''i1'') 1,
            assets = Some [sample_asset ''a1'' ''Drill'' ''l1'' 1,
                           sample_asset ''a2'' ''drill bits'' ''l1'' 2],
            totalAssetsWithinLocation = 3 \<rparr>"
  from search_filters_the_page [where s = "''SHELF''" and page = None and perPage = None
      and d = sample_db and org = "''o1''", THEN conjunct1, THEN mp, OF h]
  obtain r where r: "getLocations sample_db ''o1'' None None (Some ''SHELF'') = Inr r"
    "map row_location (locations r) =
       take (nat (take_of (default_to 8 None)))
         (drop (nat (skip_of (default_to 1 None) (default_to 8 None)))
            (order_updatedAt_desc
               (filter (\<lambda>l. organizationId l = ''o1'' \<and>
                    ilike (collation_lower sample_db) (CHR ''%'' # ''SHELF'' @ [CHR ''%'']) (name l))
                  (location_tbl sample_db))))"
    "totalLocations r =
       length (filter (\<lambda>l. organizationId l = ''o1'' \<and>
                    ilike (collation_lower sample_db) (CHR ''%'' # ''SHELF'' @ [CHR ''%'']) (name l))
                 (location_tbl sample_db))"
    by blast
  have g1: "map row_location (locations (projr (getLocations sample_db ''o1'' None None (Some ''SHELF'')))) =
       [sample_loc ''l2'' ''shelf b'' ''o1'' None 2,
        sample_loc ''l1'' ''Shelf A'' ''o1'' (Some ''i1'') 1]"
    unfolding r(1) sum.sel r(2)
    by (simp add: skip_of_def take_of_def default_to_def order_updatedAt_desc_def
        sample_ilike sample_db_def sample_loc_def)
  have g2: "totalLocations (projr (getLocations sample_db ''o1'' None None (Some ''SHELF''))) = 2"
    unfolding r(1) sum.sel r(3)
    by (simp add: sample_ilike sample_db_def sample_loc_def)
  have g3: "getLocation table_order sample_redirect sample_db ?p = Inr ?r"
    by (rule sample_getLocation_search)
  have k: "getLocation table_order sample_redirect sample_db ?p = Inr ?r \<and> p_include ?p = None
     \<and> p_search ?p = Some ''DRILL'' \<and> ''DRILL'' \<noteq> []"
    using g3 by (simp add: sample_params_def)
  from search_filters_the_page [where s = "''DRILL''" and d = sample_db and order_by = table_order
      and g = sample_redirect and p = ?p and r' = ?r, THEN conjunct2, THEN conjunct1, THEN mp, OF k]
  have "totalAssetsWithinLocation ?r =
      length (filter (\<lambda>a. locationId a = Some (p_id ?p)) (asset_tbl sample_db))"
    by (rule conjunct2)
  then have g4: "length (filter (\<lambda>a. locationId a = Some ''l1'') (asset_tbl sample_db)) = 3"
    by (simp add: sample_params_def)
  have g5: "ilike ascii_lower ''%SHELF%'' ''Shelf A''"
    by (rule sample_ilike)
  have f: "ascii_lower CHR ''%'' = CHR ''%'' \<and> (\<forall>c \<in> set ''SHELF''. \<not> like_special (ascii_lower c))"
    by code_simp
  from search_filters_the_page [where s = "''SHELF''" and lw = ascii_lower and h = "''Shelf A''",
      THEN conjunct2, THEN conjunct2, THEN conjunct1, THEN mp, OF f] g5
  have g6: "\<exists>pre post. map ascii_lower ''Shelf A'' = pre @ map ascii_lower ''SHELF'' @ post"
    by simp
  have f': "ascii_lower CHR ''%'' = CHR ''%'' \<and> ascii_lower CHR ''_'' = CHR ''_''"
    by code_simp
  from search_filters_the_page [where lw = ascii_lower and h = "''Attic''",
      THEN conjunct2, THEN conjunct2, THEN conjunct2, THEN conjunct1, THEN mp, OF f']
  have g7: "ilike ascii_lower ''%_%'' ''Attic''"
    by simp
  from search_filters_the_page [where lw = ascii_lower and h = "''Attic''",
      THEN conjunct2, THEN conjunct2, THEN conjunct2, THEN conjunct2, THEN mp,
      OF conjunct1 [OF f']]
  have g8: "ilike ascii_lower ''%%%'' ''Attic''"
    by simp
  show ?thesis using g1 g2 g3 g4 g5 g6 g7 g8 by blast
qed

end
